theory Spec2Isabelle
  imports Main "HOL-Library.Sublist" "HOL-Library.AList" "HOL-Library.Char_ord"
    "HOL-Library.List_Lexorder"
begin

section \<open>Python exceptions\<close>

text \<open>
  The fragment of Python's built-in exception hierarchy that the two programs can meet.
  An exception is identified by its class; \<open>CalledProcessError\<close> carries the return code
  of the child process, as \<open>subprocess.CalledProcessError.returncode\<close> does.
\<close>

datatype pyexc =
    BaseException
  | KeyboardInterrupt
  | Exception
  | AssertionError
  | AttributeError
  | MemoryError
  | LookupError
  | KeyError
  | OSError
  | FileNotFoundError
  | IsADirectoryError
  | PermissionError
  | ValueError
  | UnicodeError
  | UnicodeDecodeError
  | TclError
  | CalledProcessError nat

text \<open>The direct base class; \<open>BaseException\<close> is the root.\<close>

fun base_class :: "pyexc \<Rightarrow> pyexc option" where
  "base_class BaseException = None"
| "base_class KeyboardInterrupt = Some BaseException"
| "base_class Exception = Some BaseException"
| "base_class AssertionError = Some Exception"
| "base_class AttributeError = Some Exception"
| "base_class MemoryError = Some Exception"
| "base_class LookupError = Some Exception"
| "base_class KeyError = Some LookupError"
| "base_class OSError = Some Exception"
| "base_class FileNotFoundError = Some OSError"
| "base_class IsADirectoryError = Some OSError"
| "base_class PermissionError = Some OSError"
| "base_class ValueError = Some Exception"
| "base_class UnicodeError = Some ValueError"
| "base_class UnicodeDecodeError = Some UnicodeError"
| "base_class TclError = Some Exception"
| "base_class (CalledProcessError rc) = Some Exception"

text \<open>
  \<open>isinstance(e, cls)\<close> for an exception \<open>e\<close>: walk the base classes. The hierarchy above
  is four levels deep, so four steps up reach the root from everywhere.
\<close>

fun exc_isinstance_upto :: "nat \<Rightarrow> pyexc \<Rightarrow> pyexc \<Rightarrow> bool" where
  "exc_isinstance_upto 0 e cls = (e = cls)"
| "exc_isinstance_upto (Suc n) e cls =
     (e = cls \<or> (case base_class e of None \<Rightarrow> False | Some b \<Rightarrow> exc_isinstance_upto n b cls))"

definition exc_isinstance :: "pyexc \<Rightarrow> pyexc \<Rightarrow> bool" where
  "exc_isinstance e cls = exc_isinstance_upto 4 e cls"

text \<open>\<open>type(e).__name__\<close>.\<close>

fun exc_name :: "pyexc \<Rightarrow> string" where
  "exc_name BaseException = ''BaseException''"
| "exc_name KeyboardInterrupt = ''KeyboardInterrupt''"
| "exc_name Exception = ''Exception''"
| "exc_name AssertionError = ''AssertionError''"
| "exc_name AttributeError = ''AttributeError''"
| "exc_name MemoryError = ''MemoryError''"
| "exc_name LookupError = ''LookupError''"
| "exc_name KeyError = ''KeyError''"
| "exc_name OSError = ''OSError''"
| "exc_name FileNotFoundError = ''FileNotFoundError''"
| "exc_name IsADirectoryError = ''IsADirectoryError''"
| "exc_name PermissionError = ''PermissionError''"
| "exc_name ValueError = ''ValueError''"
| "exc_name UnicodeError = ''UnicodeError''"
| "exc_name UnicodeDecodeError = ''UnicodeDecodeError''"
| "exc_name TclError = ''TclError''"
| "exc_name (CalledProcessError rc) = ''CalledProcessError''"

section \<open>The installer script \<open>build-exe-installer.py\<close>\<close>

subsection \<open>The script's surroundings\<close>

text \<open>
  What the script sees of the machine: the directories and text files of the working
  directory, and a journal of the effects it has had, oldest first.
\<close>

datatype action =
    ReadFile string
  | WriteFile string string
  | RunProcess "string list"
  | RemoveTree string

record world =
  dirs :: "string list"
  files :: "(string \<times> string) list"
  journal :: "action list"

text \<open>
  What the script takes from the interpreter and from the programs it starts.
  \<^item> \<open>spawn argv\<close>: \<open>Inl e\<close> when the child cannot be started, otherwise its return code
    and its standard output (\<open>None\<close> when the bytes are not valid UTF-8; the text otherwise);
  \<^item> \<open>re_findall_metadata\<close> is
    \<^verbatim>\<open>re.findall(r'''^__(author|copyright|license)__ = ['"](.*)['"]$''', content, re.MULTILINE)\<close>;
  \<^item> \<open>re_search_version\<close> is
    \<^verbatim>\<open>re.search(r'^version_info = \((\d+), (\d+), (\d+)\)', content, re.MULTILINE)\<close>
    with the three groups of the match, \<open>None\<close> when nothing matches;
  \<^item> \<open>interpolation_error value\<close>: \<open>ConfigParser\<close> refuses to store \<open>value\<close>, because it
    holds a percent sign that is neither doubled nor the start of \<open>%(name)s\<close>
    (\<open>BasicInterpolation.before_set\<close> raises \<open>ValueError\<close>);
  \<^item> \<open>configparser_write\<close> is the text \<open>ConfigParser.write\<close> produces for the sections given.
\<close>

record os_env =
  platform_system :: string
  sys_executable :: string
  sys_version_info :: "nat \<times> nat \<times> nat"
  spawn :: "string list \<Rightarrow> pyexc + (nat \<times> string option)"
  re_findall_metadata :: "string \<Rightarrow> (string \<times> string) list"
  re_search_version :: "string \<Rightarrow> (string \<times> string \<times> string) option"
  interpolation_error :: "string \<Rightarrow> bool"
  configparser_write :: "(string \<times> (string \<times> string) list) list \<Rightarrow> string"

definition log_action :: "action \<Rightarrow> world \<Rightarrow> world" where
  "log_action a w = w\<lparr>journal := journal w @ [a]\<rparr>"

text \<open>The path separator of Windows, where the script insists on running.\<close>

definition backslash :: string where
  "backslash = [CHR 0x5C]"

text \<open>\<open>open(path).read()\<close> of a text file.\<close>

definition open_read :: "string \<Rightarrow> world \<Rightarrow> (pyexc + string) \<times> world" where
  "open_read path w =
     (case map_of (files w) path of
        None \<Rightarrow> (Inl FileNotFoundError, w)
      | Some content \<Rightarrow> (Inr content, log_action (ReadFile path) w))"

text \<open>
  \<open>open(path, 'w')\<close> followed by a write of \<open>content\<close>. Where \<open>path\<close> is a directory,
  \<open>open\<close> raises (on Windows, \<open>PermissionError\<close>) and nothing is written.
\<close>

definition open_write :: "string \<Rightarrow> string \<Rightarrow> world \<Rightarrow> (pyexc + unit) \<times> world" where
  "open_write path content w =
     (if path \<in> set (dirs w) then (Inl PermissionError, w)
      else (Inr (),
            log_action (WriteFile path content)
              (w\<lparr>files := AList.update path content (files w)\<rparr>)))"

text \<open>
  Starting a child and waiting for it. \<open>python -m venv D\<close> that returns 0 has created
  the directory \<open>D\<close>; nothing else the script starts creates a directory beside it.
\<close>

definition run_child :: "os_env \<Rightarrow> string list \<Rightarrow> world \<Rightarrow> (pyexc + (nat \<times> string option)) \<times> world" where
  "run_child env argv w =
     (case spawn env argv of
        Inl e \<Rightarrow> (Inl e, w)
      | Inr (rc, out) \<Rightarrow>
          (Inr (rc, out),
           log_action (RunProcess argv)
             (case argv of
                [exe, m, venv, d] \<Rightarrow>
                  (if m = ''-m'' \<and> venv = ''venv'' \<and> rc = 0 \<and> d \<notin> set (dirs w)
                   then w\<lparr>dirs := dirs w @ [d]\<rparr> else w)
              | _ \<Rightarrow> w)))"

text \<open>\<open>subprocess.check_call\<close>: a return code other than 0 raises \<open>CalledProcessError\<close>.\<close>

definition check_call :: "os_env \<Rightarrow> string list \<Rightarrow> world \<Rightarrow> (pyexc + unit) \<times> world" where
  "check_call env argv w =
     (case run_child env argv w of
        (Inl e, w') \<Rightarrow> (Inl e, w')
      | (Inr (rc, out), w') \<Rightarrow> (if rc = 0 then (Inr (), w') else (Inl (CalledProcessError rc), w')))"

text \<open>
  \<open>subprocess.check_output(argv).decode('utf-8')\<close>: the same, returning the decoded
  output; bytes that are not UTF-8 raise \<open>UnicodeDecodeError\<close>.
\<close>

definition check_output_decode :: "os_env \<Rightarrow> string list \<Rightarrow> world \<Rightarrow> (pyexc + string) \<times> world" where
  "check_output_decode env argv w =
     (case run_child env argv w of
        (Inl e, w') \<Rightarrow> (Inl e, w')
      | (Inr (rc, out), w') \<Rightarrow>
          (if rc \<noteq> 0 then (Inl (CalledProcessError rc), w')
           else case out of None \<Rightarrow> (Inl UnicodeDecodeError, w') | Some text \<Rightarrow> (Inr text, w')))"

text \<open>\<open>shutil.rmtree(path)\<close>: a directory that is not there raises \<open>FileNotFoundError\<close>.\<close>

definition rmtree :: "string \<Rightarrow> world \<Rightarrow> (pyexc + unit) \<times> world" where
  "rmtree path w =
     (if path \<in> set (dirs w)
      then (Inr (), log_action (RemoveTree path) (w\<lparr>dirs := removeAll path (dirs w)\<rparr>))
      else (Inl FileNotFoundError, w))"

subsection \<open>String methods (ASCII)\<close>

text \<open>
  \<open>str.isspace\<close>, \<open>str.strip()\<close>, \<open>str.splitlines()\<close>, \<open>str.lower()\<close> and
  \<open>str.startswith\<close> on ASCII text.
\<close>

definition isspace :: "char \<Rightarrow> bool" where
  "isspace c = (let n = (of_char c :: nat) in (9 \<le> n \<and> n \<le> 13) \<or> (28 \<le> n \<and> n \<le> 32))"

definition strip :: "string \<Rightarrow> string" where
  "strip s = rev (dropWhile isspace (rev (dropWhile isspace s)))"

definition is_linebreak :: "char \<Rightarrow> bool" where
  "is_linebreak c = (let n = (of_char c :: nat) in (10 \<le> n \<and> n \<le> 13) \<or> (28 \<le> n \<and> n \<le> 30))"

fun splitlines_from :: "string \<Rightarrow> string \<Rightarrow> string list" where
  "splitlines_from cur [] = (if cur = [] then [] else [rev cur])"
| "splitlines_from cur [c] = (if is_linebreak c then [rev cur] else [rev (c # cur)])"
| "splitlines_from cur (c # d # cs) =
     (if c = CHR 0x0D \<and> d = CHR 0x0A then rev cur # splitlines_from [] cs
      else if is_linebreak c then rev cur # splitlines_from [] (d # cs)
      else splitlines_from (c # cur) (d # cs))"

definition splitlines :: "string \<Rightarrow> string list" where
  "splitlines s = splitlines_from [] s"

definition lower_char :: "char \<Rightarrow> char" where
  "lower_char c = (let n = (of_char c :: nat) in if 65 \<le> n \<and> n \<le> 90 then char_of (n + 32) else c)"

definition lower :: "string \<Rightarrow> string" where
  "lower s = map lower_char s"

definition startswith :: "string \<Rightarrow> string \<Rightarrow> bool" where
  "startswith s p = prefix p s"

text \<open>\<open>s.split(sep)\<close> for a one-character separator: never an empty list.\<close>

fun split_from :: "char \<Rightarrow> string \<Rightarrow> string \<Rightarrow> string list" where
  "split_from sep cur [] = [rev cur]"
| "split_from sep cur (c # cs) =
     (if c = sep then rev cur # split_from sep [] cs else split_from sep (c # cur) cs)"

definition str_split :: "char \<Rightarrow> string \<Rightarrow> string list" where
  "str_split sep s = split_from sep [] s"

text \<open>\<open>sep.join(xs)\<close>.\<close>

fun join :: "string \<Rightarrow> string list \<Rightarrow> string" where
  "join sep [] = []"
| "join sep [x] = x"
| "join sep (x # y # ys) = x @ sep @ join sep (y # ys)"

text \<open>\<open>'%d' % n\<close> for a natural number.\<close>

fun digits_of :: "nat \<Rightarrow> string" where
  "digits_of n = (if n < 10 then [char_of (48 + n)] else digits_of (n div 10) @ [char_of (48 + n mod 10)])"

subsection \<open>The script\<close>

text \<open>
  \<open>get_requirements\<close> is a generator over the lines of \<open>requirements.txt\<close> that are
  neither empty nor comments. Nothing in the script calls it.
\<close>

definition get_requirements :: "world \<Rightarrow> (pyexc + string list) \<times> world" where
  "get_requirements w =
     (case open_read ''requirements.txt'' w of
        (Inl e, w') \<Rightarrow> (Inl e, w')
      | (Inr content, w') \<Rightarrow>
          (Inr (filter (\<lambda>line. \<not> startswith line ''#'' \<and> line \<noteq> [])
                  (map strip (str_split (CHR 0x0A) content))), w'))"

text \<open>
  \<open>find_metadata\<close>: the dictionary built from the matches (a later match of a key
  replaces an earlier one), the assertion on its keys, and the version string.
  \<open>re.search(...)\<close> returning \<open>None\<close> makes \<open>.groups()\<close> raise \<open>AttributeError\<close>.
\<close>

definition find_metadata :: "os_env \<Rightarrow> world \<Rightarrow> (pyexc + (string \<times> string) list) \<times> world" where
  "find_metadata env w =
     (case open_read (''porcupine'' @ backslash @ ''__init__.py'') w of
        (Inl e, w') \<Rightarrow> (Inl e, w')
      | (Inr content, w') \<Rightarrow>
          (let result = fold (\<lambda>(k, v) d. AList.update k v d) (re_findall_metadata env content) []
           in if set (map fst result) \<noteq> {''author'', ''copyright'', ''license''}
              then (Inl AssertionError, w')
              else case re_search_version env content of
                     None \<Rightarrow> (Inl AttributeError, w')
                   | Some (a, b, c) \<Rightarrow>
                       (Inr (AList.update ''version'' (a @ ''.'' @ b @ ''.'' @ c) result), w')))"

text \<open>
  \<open>get_frozen_requirements_in_a_crazy_way\<close>. The first \<open>check_call\<close> is outside the
  \<open>try\<close>. The \<open>finally\<close> clause runs whatever the body did; when it raises, its
  exception is the one that leaves the function, otherwise the body's outcome stands.
\<close>

definition temp_python :: string where
  "temp_python = ''temp_env'' @ backslash @ ''Scripts'' @ backslash @ ''python.exe''"

definition frozen_try_body :: "os_env \<Rightarrow> world \<Rightarrow> (pyexc + string list) \<times> world" where
  "frozen_try_body env w =
     (case check_call env [temp_python, ''-m'', ''pip'', ''install'', ''-r'', ''requirements.txt''] w of
        (Inl e, w1) \<Rightarrow> (Inl e, w1)
      | (Inr u, w1) \<Rightarrow>
          (case check_output_decode env [temp_python, ''-m'', ''pip'', ''freeze''] w1 of
             (Inl e, w2) \<Rightarrow> (Inl e, w2)
           | (Inr text, w2) \<Rightarrow> (Inr (splitlines (strip text)), w2)))"

definition get_frozen_requirements_in_a_crazy_way :: "os_env \<Rightarrow> world \<Rightarrow> (pyexc + string list) \<times> world" where
  "get_frozen_requirements_in_a_crazy_way env w =
     (case check_call env [sys_executable env, ''-m'', ''venv'', ''temp_env''] w of
        (Inl e, w1) \<Rightarrow> (Inl e, w1)
      | (Inr u, w1) \<Rightarrow>
          (case frozen_try_body env w1 of
             (body, w2) \<Rightarrow>
               (case rmtree ''temp_venv'' w2 of
                  (Inl e, w3) \<Rightarrow> (Inl e, w3)
                | (Inr u', w3) \<Rightarrow>
                    (case body of
                       Inl e \<Rightarrow> (Inl e, w3)
                     | Inr frozen \<Rightarrow>
                         (Inr (filter (\<lambda>requirement. \<not> startswith (lower requirement) ''porcupine=='') frozen),
                          w3)))))"

text \<open>
  \<open>parser[section] = {...}\<close>: every value that is not empty goes through the
  interpolation's check, and the first refused value raises \<open>ValueError\<close>.
\<close>

definition set_section :: "os_env \<Rightarrow> (string \<times> string) list \<Rightarrow> pyexc + unit" where
  "set_section env items =
     (if list_ex (\<lambda>(option, v). v \<noteq> [] \<and> interpolation_error env v) items
      then Inl ValueError else Inr ())"

text \<open>
  \<open>create_pynsist_cfg\<close>: the three sections are built and stored in the order of the
  source, so the metadata is read first, the requirements are frozen next, and the
  file is opened and written last.
\<close>

definition create_pynsist_cfg :: "os_env \<Rightarrow> world \<Rightarrow> (pyexc + unit) \<times> world" where
  "create_pynsist_cfg env w =
     (case find_metadata env w of
        (Inl e, w1) \<Rightarrow> (Inl e, w1)
      | (Inr metadata, w1) \<Rightarrow>
          (case map_of metadata ''version'' of
             None \<Rightarrow> (Inl KeyError, w1)
           | Some version \<Rightarrow>
               (let application =
                      [(''name'', ''Porcupine''), (''version'', version),
                       (''entry_point'', ''porcupine.__main__:main''), (''license_file'', ''LICENSE'')];
                    python =
                      (case sys_version_info env of
                         (a, b, c) \<Rightarrow> [(''version'', digits_of a @ ''.'' @ digits_of b @ ''.'' @ digits_of c)])
                in case set_section env application of
                     Inl e \<Rightarrow> (Inl e, w1)
                   | Inr u \<Rightarrow>
                       (case set_section env python of
                          Inl e \<Rightarrow> (Inl e, w1)
                        | Inr u' \<Rightarrow>
                            (case get_frozen_requirements_in_a_crazy_way env w1 of
                               (Inl e, w2) \<Rightarrow> (Inl e, w2)
                             | (Inr frozen, w2) \<Rightarrow>
                                 (let include =
                                        [(''pypi_wheels'', join [CHR 0x0A] frozen),
                                         (''files'', ''porcupine/images'')]
                                  in case set_section env include of
                                       Inl e \<Rightarrow> (Inl e, w2)
                                     | Inr u'' \<Rightarrow>
                                         open_write ''pynsist.cfg''
                                           (configparser_write env
                                              [(''Application'', application), (''Python'', python),
                                               (''Include'', include)])
                                           w2))))))"

definition run_pynsist :: "os_env \<Rightarrow> world \<Rightarrow> (pyexc + unit) \<times> world" where
  "run_pynsist env w = check_call env [sys_executable env, ''-m'', ''nsist'', ''pynsist.cfg''] w"

definition main :: "os_env \<Rightarrow> world \<Rightarrow> (pyexc + unit) \<times> world" where
  "main env w =
     (case create_pynsist_cfg env w of
        (Inl e, w1) \<Rightarrow> (Inl e, w1)
      | (Inr u, w1) \<Rightarrow> run_pynsist env w1)"

text \<open>
  Running the file as a script: the assertion on the platform, then \<open>main()\<close>. The
  command line is never looked at. The interpreter ends with status 0 when the module
  runs to its end and with status 1 when an exception leaves it and the traceback is
  printed.
\<close>

definition script :: "os_env \<Rightarrow> world \<Rightarrow> (pyexc + unit) \<times> world" where
  "script env w =
     (if platform_system env \<noteq> ''Windows'' then (Inl AssertionError, w) else main env w)"

definition exit_status :: "(pyexc + unit) \<times> world \<Rightarrow> nat" where
  "exit_status r = (case fst r of Inl e \<Rightarrow> 1 | Inr u \<Rightarrow> 0)"

subsection \<open>A machine to run the script on\<close>

text \<open>
  The text of \<open>porcupine/__init__.py\<close> in the checkout: the version tuple and the three
  lines of metadata.
\<close>

definition init_py :: string where
  "init_py =
     join [CHR 0x0A]
       [''version_info = (0, 1, 0)'',
        ''__version__ = '' @ [CHR 0x27] @ ''%d.%d.%d'' @ [CHR 0x27] @ '' % version_info'',
        ''__author__ = '' @ [CHR 0x27] @ ''Akuli'' @ [CHR 0x27],
        ''__copyright__ = '' @ [CHR 0x27] @ ''Copyright (c) 2017 Akuli'' @ [CHR 0x27],
        ''__license__ = '' @ [CHR 0x27] @ ''MIT'' @ [CHR 0x27]]"

text \<open>
  A Windows machine on which every child process succeeds, except that the packaging
  command returns \<open>rc\<close>. Its regular expressions find in the text above what is there,
  and nothing in any other text; its \<open>ConfigParser\<close> refuses every value with a percent
  sign. And a checkout of the repository, with the directories \<open>extra\<close> beside the
  package.
\<close>

definition windows_machine :: "nat \<Rightarrow> os_env" where
  "windows_machine rc =
     \<lparr>platform_system = ''Windows'', sys_executable = ''python'', sys_version_info = (3, 6, 1),
      spawn = (\<lambda>argv.
        if argv = [''python'', ''-m'', ''nsist'', ''pynsist.cfg''] then Inr (rc, Some [])
        else if argv = [temp_python, ''-m'', ''pip'', ''freeze''] then Inr (0, Some ''Pygments==2.2.0'')
        else Inr (0, Some [])),
      re_findall_metadata =
        (\<lambda>content.
           if content = init_py
           then [(''author'', ''Akuli''), (''copyright'', ''Copyright (c) 2017 Akuli''),
                 (''license'', ''MIT'')]
           else []),
      re_search_version = (\<lambda>content. if content = init_py then Some (''0'', ''1'', ''0'') else None),
      interpolation_error = (\<lambda>v. CHR ''%'' \<in> set v),
      configparser_write = (\<lambda>sections. concat (map fst sections))\<rparr>"

definition checkout :: "string list \<Rightarrow> world" where
  "checkout extra =
     \<lparr>dirs = ''porcupine'' # extra,
      files = [(''porcupine'' @ backslash @ ''__init__.py'', init_py),
               (''requirements.txt'', ''pygments'')],
      journal = []\<rparr>"

section \<open>The editor \<open>porcupine/editor.py\<close>\<close>

subsection \<open>Tabs\<close>

text \<open>
  Modelled from the spec: the module \<open>porcupine.tabs\<close> is not among the sources. The
  spec's glossary calls a tab an open document view; \<open>add_action\<close>'s docstring says
  that tab types are subclasses of \<open>tabs.Tab\<close>, and the editor itself names
  \<open>tabs.Tab\<close> and \<open>tabs.FileTab\<close>. A class is \<open>Tab\<close>, \<open>FileTab\<close> (a subclass of
  \<open>Tab\<close>), or a named class derived from one of these.
\<close>

datatype tabclass = Tab | FileTab | Subclass string tabclass

fun issubclass :: "tabclass \<Rightarrow> tabclass \<Rightarrow> bool" where
  "issubclass Tab cls = (cls = Tab)"
| "issubclass FileTab cls = (cls = FileTab \<or> cls = Tab)"
| "issubclass (Subclass name b) cls = (cls = Subclass name b \<or> issubclass b cls)"

text \<open>
  A tab object: its identity, its class, and for a file tab the path and the text it
  was made with.
\<close>

record tab =
  tab_id :: nat
  tab_class :: tabclass
  tab_path :: "string option"
  tab_text :: string

text \<open>
  The second argument of \<open>isinstance\<close> in \<open>add_action\<close> is a tuple of classes, with
  \<open>type(None)\<close> standing for \<open>None\<close>; the first is the current tab or \<open>None\<close>.
\<close>

datatype pytype = NoneType | TabType tabclass

fun isinstance1 :: "tab option \<Rightarrow> pytype \<Rightarrow> bool" where
  "isinstance1 None NoneType = True"
| "isinstance1 None (TabType cls) = False"
| "isinstance1 (Some t) NoneType = False"
| "isinstance1 (Some t) (TabType cls) = issubclass (tab_class t) cls"

definition isinstance :: "tab option \<Rightarrow> pytype list \<Rightarrow> bool" where
  "isinstance v types = list_ex (isinstance1 v) types"

subsection \<open>Callbacks, menus and events\<close>

text \<open>
  The function objects that the editor hands to menus and key bindings:
  its own bound methods, the closures \<open>_setup_menus\<close> builds, and functions of other
  modules (\<open>External\<close>: a plugin's function or one of \<open>tabmanager.bindings\<close>).
\<close>

datatype callback =
    New_file
  | Open_files
  | Close_tab_or_quit
  | Current_tab_method string
  | Textmethod string
  | On_wheel string
  | Settingdialog_show
  | Webbrowser_open string
  | Set_pygments_style string
  | External nat

datatype entry_state = Normal | Disabled

text \<open>
  The entries of a \<open>tk.Menu\<close>: a cascade (label, submenu), a command (label, command,
  accelerator, state), a separator, a radiobutton (label, value, command, foreground,
  background). A menu is known by its identity, a number.
\<close>

datatype menu_entry =
    Cascade string nat
  | Command string callback "string option" entry_state
  | Separator
  | Radiobutton string string callback string string

text \<open>Calls that leave the \<open>Editor\<close> class, in the order they are made.\<close>

datatype event =
    LogException string
  | ErrorDialog string string string
  | CopyBindings nat
  | CanBeClosed nat
  | TabClose nat
  | TabMethod nat string
  | TextwidgetMethod nat string
  | TextwidgetOnWheel nat string
  | Destroy
  | DestroyCallback
  | SettingDialogShow
  | WebbrowserOpen string
  | ConfigSetStyle string
  | ConfigConnect string string
  | Called callback

text \<open>
  The editor with its tab manager and its menus.
  \<^item> \<open>tabs\<close>, \<open>current_tab\<close>: \<open>self.tabmanager.tabs\<close> and \<open>self.tabmanager.current_tab\<close>;
  \<^item> \<open>menubar\<close>: \<open>self.menubar\<close>; \<open>menus\<close>: the entries of every menu made so far;
  \<^item> \<open>submenus\<close>: the dictionary \<open>self._submenus\<close>, keyed by (parent menu, label);
  \<^item> \<open>bindings\<close>: the functions bound with \<open>self.bind\<close>, by key sequence; each is a
    \<open>bind_callback\<close> closure, given by the callback and the tab types it closes over;
  \<^item> \<open>tab_changed_hook\<close>: the \<open>tab_changed\<close> closures connected to the tab manager's
    hook, each given by the menu, the index and the tab types it closes over;
  \<^item> \<open>has_destroy_callback\<close>: \<open>self.destroy_callback is not None\<close>;
  \<^item> \<open>destroyed\<close>: \<open>self.destroy()\<close> has run.
\<close>

record editor =
  tabs :: "tab list"
  current_tab :: "tab option"
  next_tab_id :: nat
  menubar :: nat
  menus :: "(nat \<times> menu_entry list) list"
  next_menu_id :: nat
  submenus :: "((nat \<times> string) \<times> nat) list"
  bindings :: "(string \<times> callback \<times> pytype list) list"
  tab_changed_hook :: "(nat \<times> nat option \<times> pytype list) list"
  has_destroy_callback :: bool
  destroyed :: bool
  events :: "event list"

text \<open>
  The names of a Pygments style that \<open>_setup_menus\<close> reads: \<open>background_color\<close>, the
  \<open>'color'\<close> of the tokens \<open>String\<close> and \<open>Text\<close>, and \<open>default_style\<close>.
\<close>

record style =
  background_color :: string
  string_color :: "string option"
  text_color :: "string option"
  default_style :: string

text \<open>
  What the user, the other modules of the package and the libraries supply.
  \<^item> \<open>dialogs_open_files defaultdir\<close>: the paths the user chooses, or the exception
    that \<open>dialogs.open_files\<close> raises;
  \<^item> \<open>config_files_encoding\<close>: \<open>config["Files", "encoding"]\<close>;
  \<^item> \<open>open_and_read path encoding\<close>: \<open>open(path, encoding=encoding)\<close> and \<open>f.read()\<close>;
  \<^item> \<open>format_exc\<close>: \<open>traceback.format_exc()\<close> while the exception is handled;
  \<^item> \<open>os_path_dirname\<close>: \<open>os.path.dirname\<close>;
  \<^item> \<open>copy_bindings_error tab\<close>: the exception that \<open>utils.copy_bindings\<close> raises for the
    tab's text widget, \<open>None\<close> when it returns;
  \<^item> \<open>tabmanager_add_tab tab make_current\<close>: what \<open>TabManager.add_tab\<close> does to the tab
    list and the current tab (\<open>make_current\<close> is \<open>None\<close> when the argument is left out), or
    the exception it raises;
  \<^item> \<open>tab_close tab\<close>: the same for \<open>tab.close()\<close>;
  \<^item> \<open>can_be_closed tab\<close>: the answer of \<open>tab.can_be_closed()\<close>;
  \<^item> \<open>tabmanager_bindings\<close>: \<open>self.tabmanager.bindings\<close>;
  \<^item> \<open>get_all_styles\<close>, \<open>get_style_by_name\<close>: the Pygments styles;
  \<^item> \<open>invert_color\<close>: \<open>utils.invert_color\<close>.
\<close>

record ui_env =
  dialogs_open_files :: "string option \<Rightarrow> pyexc + string list"
  config_files_encoding :: "pyexc + string"
  open_and_read :: "string \<Rightarrow> string \<Rightarrow> pyexc + string"
  format_exc :: "pyexc \<Rightarrow> string"
  os_path_dirname :: "string \<Rightarrow> string"
  copy_bindings_error :: "tab \<Rightarrow> pyexc option"
  tabmanager_add_tab ::
    "tab \<Rightarrow> bool option \<Rightarrow> tab list \<times> tab option \<Rightarrow> pyexc + tab list \<times> tab option"
  tab_close :: "tab \<Rightarrow> tab list \<times> tab option \<Rightarrow> tab list \<times> tab option"
  can_be_closed :: "tab \<Rightarrow> bool"
  tabmanager_bindings :: "(string \<times> nat) list"
  get_all_styles :: "string list"
  get_style_by_name :: "string \<Rightarrow> style"
  invert_color :: "string \<Rightarrow> string"

definition emit :: "event \<Rightarrow> editor \<Rightarrow> editor" where
  "emit ev s = s\<lparr>events := events s @ [ev]\<rparr>"

subsection \<open>Menu objects\<close>

definition menu_entries :: "nat \<Rightarrow> editor \<Rightarrow> menu_entry list" where
  "menu_entries m s = (case map_of (menus s) m of None \<Rightarrow> [] | Some es \<Rightarrow> es)"

definition set_menu_entries :: "nat \<Rightarrow> menu_entry list \<Rightarrow> editor \<Rightarrow> editor" where
  "set_menu_entries m es s = s\<lparr>menus := AList.update m es (menus s)\<rparr>"

text \<open>\<open>tk.Menu(tearoff=False)\<close>: a new, empty menu.\<close>

definition new_menu :: "editor \<Rightarrow> nat \<times> editor" where
  "new_menu s =
     (next_menu_id s,
      s\<lparr>menus := AList.update (next_menu_id s) [] (menus s), next_menu_id := Suc (next_menu_id s)\<rparr>)"

text \<open>\<open>menu.index('end')\<close>: \<open>None\<close> for an empty menu, else the index of the last entry.\<close>

definition menu_index_end :: "nat \<Rightarrow> editor \<Rightarrow> nat option" where
  "menu_index_end m s =
     (if menu_entries m s = [] then None else Some (length (menu_entries m s) - 1))"

text \<open>\<open>menu.insert_cascade(index, ...)\<close> puts the entry before the one at \<open>index\<close>.\<close>

definition menu_insert :: "nat \<Rightarrow> nat \<Rightarrow> menu_entry \<Rightarrow> editor \<Rightarrow> editor" where
  "menu_insert m index e s =
     set_menu_entries m (take index (menu_entries m s) @ [e] @ drop index (menu_entries m s)) s"

text \<open>\<open>menu.add_cascade\<close>, \<open>add_command\<close>, \<open>add_separator\<close>, \<open>add_radiobutton\<close>: at the end.\<close>

definition menu_add :: "nat \<Rightarrow> menu_entry \<Rightarrow> editor \<Rightarrow> editor" where
  "menu_add m e s = set_menu_entries m (menu_entries m s @ [e]) s"

fun set_entry_state :: "entry_state \<Rightarrow> menu_entry \<Rightarrow> menu_entry" where
  "set_entry_state st (Command label command accelerator old) = Command label command accelerator st"
| "set_entry_state st e = e"

text \<open>\<open>menu.entryconfig(menuindex, state=...)\<close>.\<close>

definition entryconfig_state :: "nat \<Rightarrow> nat option \<Rightarrow> entry_state \<Rightarrow> editor \<Rightarrow> editor" where
  "entryconfig_state m menuindex st s =
     (case menuindex of
        None \<Rightarrow> s
      | Some i \<Rightarrow>
          (if i < length (menu_entries m s)
           then set_menu_entries m
                  ((menu_entries m s)[i := set_entry_state st (menu_entries m s ! i)]) s
           else s))"

subsection \<open>\<open>Editor.get_menu\<close>\<close>

text \<open>
  The loop over \<open>label_path.split('/')\<close>: \<open>current_menu\<close> and the labels still to go.
  A label found in \<open>_submenus\<close> is followed; a label not found gets a new menu, put
  before the last entry when the parent is the menu bar and at the end otherwise.
\<close>

fun get_menu_loop :: "nat \<Rightarrow> string list \<Rightarrow> editor \<Rightarrow> nat \<times> editor" where
  "get_menu_loop current_menu [] s = (current_menu, s)"
| "get_menu_loop current_menu (label # labels) s =
     (case map_of (submenus s) (current_menu, label) of
        Some found \<Rightarrow> get_menu_loop found labels s
      | None \<Rightarrow>
          (case new_menu s of
             (submenu, s1) \<Rightarrow>
               (let s2 =
                      (if current_menu = menubar s1
                       then menu_insert current_menu
                              (case menu_index_end current_menu s1 of None \<Rightarrow> 0 | Some index \<Rightarrow> index)
                              (Cascade label submenu) s1
                       else menu_add current_menu (Cascade label submenu) s1);
                    s3 = s2\<lparr>submenus := AList.update (current_menu, label) submenu (submenus s2)\<rparr>
                in get_menu_loop submenu labels s3)))"

definition get_menu :: "string \<Rightarrow> editor \<Rightarrow> nat \<times> editor" where
  "get_menu label_path s = get_menu_loop (menubar s) (str_split (CHR ''/'') label_path) s"

subsection \<open>\<open>Editor.add_action\<close>\<close>

text \<open>
  \<open>menupath.rsplit('/', 1)\<close> unpacked into two names: the text before the last slash and
  the text after it; \<open>None\<close> when there is no slash (the unpacking raises \<open>ValueError\<close>).
\<close>

definition rsplit1 :: "string \<Rightarrow> (string \<times> string) option" where
  "rsplit1 menupath =
     (if CHR ''/'' \<in> set menupath
      then Some (rev (tl (dropWhile (\<lambda>c. c \<noteq> CHR ''/'') (rev menupath))),
                 rev (takeWhile (\<lambda>c. c \<noteq> CHR ''/'') (rev menupath)))
      else None)"

text \<open>The generator expression that puts \<open>type(None)\<close> for \<open>None\<close>.\<close>

definition tabtypes_tuple :: "tabclass option list \<Rightarrow> pytype list" where
  "tabtypes_tuple tabtypes = map (\<lambda>cls. case cls of None \<Rightarrow> NoneType | Some c \<Rightarrow> TabType c) tabtypes"

text \<open>The closure \<open>tab_changed\<close> of \<open>add_action\<close>, over \<open>menu\<close>, \<open>menuindex\<close> and \<open>tabtypes\<close>.\<close>

definition tab_changed :: "nat \<Rightarrow> nat option \<Rightarrow> pytype list \<Rightarrow> tab option \<Rightarrow> editor \<Rightarrow> editor" where
  "tab_changed menu menuindex tabtypes new_tab s =
     (if isinstance new_tab tabtypes
      then entryconfig_state menu menuindex Normal s
      else entryconfig_state menu menuindex Disabled s)"

text \<open>
  \<open>add_action\<close>. \<open>self.bind(binding, bind_callback)\<close> is called without \<open>add\<close>, so the
  function bound to the sequence before, if any, is replaced.
\<close>

definition add_action ::
  "callback \<Rightarrow> string option \<Rightarrow> string option \<Rightarrow> string option \<Rightarrow> tabclass option list \<Rightarrow>
   editor \<Rightarrow> pyexc + editor" where
  "add_action callback menupath accelerator binding tabtypes s =
     (case (case menupath of
              None \<Rightarrow> Inr s
            | Some mp \<Rightarrow>
                (case rsplit1 mp of
                   None \<Rightarrow> Inl ValueError
                 | Some (menupath', menulabel) \<Rightarrow>
                     (case get_menu menupath' s of
                        (menu, s1) \<Rightarrow>
                          (let s2 = menu_add menu (Command menulabel callback accelerator Normal) s1;
                               menuindex = menu_index_end menu s2;
                               s3 = tab_changed menu menuindex (tabtypes_tuple tabtypes) (current_tab s2) s2
                           in Inr (s3\<lparr>tab_changed_hook :=
                                        tab_changed_hook s3 @ [(menu, menuindex, tabtypes_tuple tabtypes)]\<rparr>))))) of
        Inl e \<Rightarrow> Inl e
      | Inr s4 \<Rightarrow>
          (case binding of
             None \<Rightarrow> Inr s4
           | Some b \<Rightarrow>
               Inr (s4\<lparr>bindings := AList.update b (callback, tabtypes_tuple tabtypes) (bindings s4)\<rparr>)))"

text \<open>The default of the parameter \<open>tabtypes\<close>: \<open>(None, tabs.Tab)\<close>.\<close>

definition default_tabtypes :: "tabclass option list" where
  "default_tabtypes = [None, Some Tab]"

subsection \<open>Files and tabs\<close>

definition set_tabmanager :: "tab list \<times> tab option \<Rightarrow> editor \<Rightarrow> editor" where
  "set_tabmanager tm s = s\<lparr>tabs := fst tm, current_tab := snd tm\<rparr>"

text \<open>
  \<open>utils.copy_bindings(self, tab.textwidget)\<close> and \<open>self.tabmanager.add_tab(tab, ...)\<close>:
  calls into other modules, which may raise.
\<close>

definition copy_bindings :: "ui_env \<Rightarrow> tab \<Rightarrow> editor \<Rightarrow> (pyexc + unit) \<times> editor" where
  "copy_bindings env t s =
     (case copy_bindings_error env t of
        None \<Rightarrow> (Inr (), emit (CopyBindings (tab_id t)) s)
      | Some e \<Rightarrow> (Inl e, emit (CopyBindings (tab_id t)) s))"

definition add_tab :: "ui_env \<Rightarrow> tab \<Rightarrow> bool option \<Rightarrow> editor \<Rightarrow> (pyexc + unit) \<times> editor" where
  "add_tab env t make_current s =
     (case tabmanager_add_tab env t make_current (tabs s, current_tab s) of
        Inl e \<Rightarrow> (Inl e, s)
      | Inr tm \<Rightarrow> (Inr (), set_tabmanager tm s))"

text \<open>\<open>new_file\<close>: a new \<open>FileTab\<close> with no path.\<close>

definition new_file :: "ui_env \<Rightarrow> editor \<Rightarrow> (pyexc + unit) \<times> editor" where
  "new_file env s =
     (let t = \<lparr>tab_id = next_tab_id s, tab_class = FileTab, tab_path = None, tab_text = []\<rparr>;
          s1 = s\<lparr>next_tab_id := Suc (next_tab_id s)\<rparr>
      in case copy_bindings env t s1 of
           (Inl e, s2) \<Rightarrow> (Inl e, s2)
         | (Inr u, s2) \<Rightarrow> add_tab env t None s2)"

text \<open>
  The body of the \<open>try\<close> in \<open>open_files\<close>: the encoding is looked up, the file is opened
  and read, and the tab is made. An exception leaves the editor as it was.
\<close>

definition open_files_try :: "ui_env \<Rightarrow> string \<Rightarrow> editor \<Rightarrow> (pyexc + tab) \<times> editor" where
  "open_files_try env p s =
     (case config_files_encoding env of
        Inl e \<Rightarrow> (Inl e, s)
      | Inr encoding \<Rightarrow>
          (case open_and_read env p encoding of
             Inl e \<Rightarrow> (Inl e, s)
           | Inr text \<Rightarrow>
               (Inr \<lparr>tab_id = next_tab_id s, tab_class = FileTab, tab_path = Some p, tab_text = text\<rparr>,
                s\<lparr>next_tab_id := Suc (next_tab_id s)\<rparr>)))"

text \<open>
  The loop of \<open>open_files\<close> over the chosen paths. \<open>except (OSError, UnicodeError)\<close>
  handles an exception of the \<open>try\<close> body that is an instance of one of the two classes:
  it is logged, the dialog is shown, and \<open>continue\<close> goes on with the next path. Any
  other exception of the body leaves the function, and so does every exception of the
  two statements after the \<open>try\<close>, which no handler covers.
\<close>

fun open_files_loop :: "ui_env \<Rightarrow> string list \<Rightarrow> editor \<Rightarrow> (pyexc + unit) \<times> editor" where
  "open_files_loop env [] s = (Inr (), s)"
| "open_files_loop env (p # ps) s =
     (case open_files_try env p s of
        (Inl e, s1) \<Rightarrow>
          (if exc_isinstance e OSError \<or> exc_isinstance e UnicodeError
           then open_files_loop env ps
                  (emit (ErrorDialog (exc_name e) ''Opening failed!'' (format_exc env e))
                     (emit (LogException p) s1))
           else (Inl e, s1))
      | (Inr t, s1) \<Rightarrow>
          (case copy_bindings env t s1 of
             (Inl e, s2) \<Rightarrow> (Inl e, s2)
           | (Inr u, s2) \<Rightarrow>
               (case add_tab env t (Some True) s2 of
                  (Inl e, s3) \<Rightarrow> (Inl e, s3)
                | (Inr u', s3) \<Rightarrow> open_files_loop env ps s3)))"

text \<open>The first lines of \<open>open_files\<close>: the directory the file dialog starts in.\<close>

definition defaultdir :: "ui_env \<Rightarrow> editor \<Rightarrow> string option" where
  "defaultdir env s =
     (if isinstance1 (current_tab s) (TabType FileTab)
      then (case current_tab s of
              None \<Rightarrow> None
            | Some t \<Rightarrow> (case tab_path t of None \<Rightarrow> None | Some p \<Rightarrow> Some (os_path_dirname env p)))
      else None)"

text \<open>
  \<open>open_files\<close>: the user is asked for the paths, and the loop runs over them. The call
  of \<open>dialogs.open_files\<close> is outside the \<open>try\<close>.
\<close>

definition open_files :: "ui_env \<Rightarrow> editor \<Rightarrow> (pyexc + unit) \<times> editor" where
  "open_files env s =
     (case dialogs_open_files env (defaultdir env s) of
        Inl e \<Rightarrow> (Inl e, s)
      | Inr chosen \<Rightarrow> open_files_loop env chosen s)"

subsection \<open>Closing and quitting\<close>

text \<open>
  The loop of \<open>do_quit\<close>: every tab is asked in turn; \<open>False\<close> is the early \<open>return\<close> at
  the first tab that cannot be closed.
\<close>

fun do_quit_loop :: "ui_env \<Rightarrow> tab list \<Rightarrow> editor \<Rightarrow> bool \<times> editor" where
  "do_quit_loop env [] s = (True, s)"
| "do_quit_loop env (t # ts) s =
     (if \<not> can_be_closed env t then (False, emit (CanBeClosed (tab_id t)) s)
      else do_quit_loop env ts (emit (CanBeClosed (tab_id t)) s))"

definition do_quit :: "ui_env \<Rightarrow> editor \<Rightarrow> editor" where
  "do_quit env s =
     (case do_quit_loop env (tabs s) s of
        (False, s1) \<Rightarrow> s1
      | (True, s1) \<Rightarrow>
          (let s2 = emit Destroy (s1\<lparr>destroyed := True\<rparr>)
           in if has_destroy_callback s2 then emit DestroyCallback s2 else s2))"

definition close_tab_or_quit :: "ui_env \<Rightarrow> editor \<Rightarrow> editor" where
  "close_tab_or_quit env s =
     (case current_tab s of
        None \<Rightarrow> do_quit env s
      | Some t \<Rightarrow>
          (if can_be_closed env t
           then set_tabmanager (tab_close env t (tabs s, current_tab s))
                  (emit (TabClose (tab_id t)) (emit (CanBeClosed (tab_id t)) s))
           else emit (CanBeClosed (tab_id t)) s))"

subsection \<open>Calling a callback\<close>

text \<open>
  What each function object does when it is called. \<open>current_tab.textwidget\<close> and
  \<open>current_tab.save()\<close> on \<open>None\<close> raise \<open>AttributeError\<close>; on a tab the call goes to the
  tab or to its text widget (the actions that do this are registered for \<open>tabs.FileTab\<close>
  only). What a function of another module does is not the editor's.
\<close>

definition run_callback :: "ui_env \<Rightarrow> callback \<Rightarrow> editor \<Rightarrow> (pyexc + unit) \<times> editor" where
  "run_callback env cb s =
     (case cb of
        New_file \<Rightarrow> new_file env s
      | Open_files \<Rightarrow> open_files env s
      | Close_tab_or_quit \<Rightarrow> (Inr (), close_tab_or_quit env s)
      | Current_tab_method name \<Rightarrow>
          (case current_tab s of
             None \<Rightarrow> (Inl AttributeError, s)
           | Some t \<Rightarrow> (Inr (), emit (TabMethod (tab_id t) name) s))
      | Textmethod attribute \<Rightarrow>
          (case current_tab s of
             None \<Rightarrow> (Inl AttributeError, s)
           | Some t \<Rightarrow> (Inr (), emit (TextwidgetMethod (tab_id t) attribute) s))
      | On_wheel direction \<Rightarrow>
          (case current_tab s of
             None \<Rightarrow> (Inl AttributeError, s)
           | Some t \<Rightarrow> (Inr (), emit (TextwidgetOnWheel (tab_id t) direction) s))
      | Settingdialog_show \<Rightarrow> (Inr (), emit SettingDialogShow s)
      | Webbrowser_open url \<Rightarrow> (Inr (), emit (WebbrowserOpen url) s)
      | Set_pygments_style name \<Rightarrow> (Inr (), emit (ConfigSetStyle name) s)
      | External n \<Rightarrow> (Inr (), s))"

text \<open>The call \<open>callback()\<close> itself: the call is recorded, then the function runs.\<close>

definition call :: "ui_env \<Rightarrow> callback \<Rightarrow> editor \<Rightarrow> (pyexc + unit) \<times> editor" where
  "call env cb s = run_callback env cb (emit (Called cb) s)"

text \<open>
  The closure \<open>bind_callback\<close> of \<open>add_action\<close>, over \<open>callback\<close> and \<open>tabtypes\<close>: it
  returns \<open>'break'\<close> after calling the callback, and \<open>None\<close> when the current tab is not
  of a listed type.
\<close>

definition bind_callback ::
  "ui_env \<Rightarrow> callback \<Rightarrow> pytype list \<Rightarrow> editor \<Rightarrow> (pyexc + string option) \<times> editor" where
  "bind_callback env callback tabtypes s =
     (if isinstance (current_tab s) tabtypes
      then (case call env callback s of
              (Inl e, s1) \<Rightarrow> (Inl e, s1)
            | (Inr u, s1) \<Rightarrow> (Inr (Some ''break''), s1))
      else (Inr None, s))"

text \<open>
  A key sequence reaching the editor's frame: the function bound to it, if any, is
  called.
\<close>

definition trigger :: "ui_env \<Rightarrow> string \<Rightarrow> editor \<Rightarrow> (pyexc + string option) \<times> editor" where
  "trigger env sequence s =
     (case map_of (bindings s) sequence of
        None \<Rightarrow> (Inr None, s)
      | Some (callback, tabtypes) \<Rightarrow> bind_callback env callback tabtypes s)"

subsection \<open>\<open>Editor._setup_menus\<close> and \<open>Editor.__init__\<close>\<close>

text \<open>Statements run one after the other; an exception ends the run.\<close>

fun seq :: "('s \<Rightarrow> pyexc + 's) list \<Rightarrow> 's \<Rightarrow> pyexc + 's" where
  "seq [] s = Inr s"
| "seq (f # fs) s = (case f s of Inl e \<Rightarrow> Inl e | Inr s1 \<Rightarrow> seq fs s1)"

text \<open>\<open>self.get_menu(label_path)\<close> as a statement, and followed by \<open>.add_separator()\<close>.\<close>

definition get_menu_stmt :: "string \<Rightarrow> editor \<Rightarrow> pyexc + editor" where
  "get_menu_stmt label_path s = Inr (snd (get_menu label_path s))"

definition add_separator :: "string \<Rightarrow> editor \<Rightarrow> pyexc + editor" where
  "add_separator label_path s =
     (case get_menu label_path s of (menu, s1) \<Rightarrow> Inr (menu_add menu Separator s1))"

text \<open>The local function \<open>link\<close>.\<close>

definition link :: "string \<Rightarrow> string \<Rightarrow> editor \<Rightarrow> pyexc + editor" where
  "link menupath url = add_action (Webbrowser_open url) (Some menupath) None None default_tabtypes"

text \<open>\<open>name.replace('-', ' ').replace('_', ' ').title()\<close> on ASCII names.\<close>

definition replace_char :: "char \<Rightarrow> char \<Rightarrow> string \<Rightarrow> string" where
  "replace_char old new s = map (\<lambda>c. if c = old then new else c) s"

definition is_upper :: "char \<Rightarrow> bool" where
  "is_upper c = (65 \<le> (of_char c :: nat) \<and> (of_char c :: nat) \<le> 90)"

definition is_lower :: "char \<Rightarrow> bool" where
  "is_lower c = (97 \<le> (of_char c :: nat) \<and> (of_char c :: nat) \<le> 122)"

definition upper_char :: "char \<Rightarrow> char" where
  "upper_char c = (if is_lower c then char_of ((of_char c :: nat) - 32) else c)"

fun title_from :: "bool \<Rightarrow> string \<Rightarrow> string" where
  "title_from previous_is_cased [] = []"
| "title_from previous_is_cased (c # cs) =
     (if is_lower c then (if previous_is_cased then c else upper_char c) # title_from True cs
      else if is_upper c then (if previous_is_cased then lower_char c else c) # title_from True cs
      else c # title_from False cs)"

definition title :: "string \<Rightarrow> string" where
  "title s = title_from False s"

text \<open>
  The body of the loop over the style names: the options of one radiobutton. The
  foreground is the colour of \<open>String\<close>, else that of \<open>Text\<close>, else the style's
  \<open>default_style\<close> when that is not empty, else the inverted background.
\<close>

definition color_theme :: "ui_env \<Rightarrow> string \<Rightarrow> editor \<Rightarrow> pyexc + editor" where
  "color_theme env name s =
     (let st = get_style_by_name env name;
          bg = background_color st;
          fg = (case string_color st of
                  Some color \<Rightarrow> ''#'' @ color
                | None \<Rightarrow>
                    (case text_color st of
                       Some color \<Rightarrow> ''#'' @ color
                     | None \<Rightarrow> (if default_style st \<noteq> [] then default_style st else invert_color env bg)))
      in case get_menu ''Color Themes'' s of
           (menu, s1) \<Rightarrow>
             Inr (menu_add menu
                    (Radiobutton (title (replace_char (CHR ''_'') (CHR '' '') (replace_char (CHR ''-'') (CHR '' '') name)))
                       name (Set_pygments_style name) fg bg)
                    s1))"

text \<open>
  \<open>_setup_menus\<close> up to the links of the Help menu, statement by statement. \<open>add\<close> is
  \<open>self.add_action\<close>; where the source leaves \<open>tabtypes\<close> out, the default stands.
\<close>

definition setup_menus_statements :: "(editor \<Rightarrow> pyexc + editor) list" where
  "setup_menus_statements =
     [add_action New_file (Some ''File/New File'') (Some ''Ctrl+N'') (Some ''<Control-n>'') default_tabtypes,
      add_action Open_files (Some ''File/Open'') (Some ''Ctrl+O'') (Some ''<Control-o>'') default_tabtypes,
      add_action (Current_tab_method ''save'')
        (Some ''File/Save'') (Some ''Ctrl+S'') (Some ''<Control-s>'') [Some FileTab],
      add_action (Current_tab_method ''save_as'')
        (Some ''File/Save As...'') (Some ''Ctrl+Shift+S'') (Some ''<Control-S>'') [Some FileTab],
      add_separator ''File'',
      add_action Close_tab_or_quit (Some ''File/Close'') (Some ''Ctrl+W'') (Some ''<Control-w>'') default_tabtypes,
      add_action (Textmethod ''undo'') (Some ''Edit/Undo'') (Some ''Ctrl+Z'') (Some ''<Control-z>'') [Some FileTab],
      add_action (Textmethod ''redo'') (Some ''Edit/Redo'') (Some ''Ctrl+Y'') (Some ''<Control-y>'') [Some FileTab],
      add_action (Textmethod ''cut'') (Some ''Edit/Cut'') (Some ''Ctrl+X'') (Some ''<Control-x>'') [Some FileTab],
      add_action (Textmethod ''copy'') (Some ''Edit/Copy'') (Some ''Ctrl+C'') (Some ''<Control-c>'') [Some FileTab],
      add_action (Textmethod ''paste'') (Some ''Edit/Paste'') (Some ''Ctrl+V'') (Some ''<Control-v>'') [Some FileTab],
      add_action (Textmethod ''select_all'')
        (Some ''Edit/Select All'') (Some ''Ctrl+A'') (Some ''<Control-a>'') [Some FileTab],
      add_separator ''Edit'',
      add_action (Current_tab_method ''find'')
        (Some ''Edit/Find and Replace'') (Some ''Ctrl+F'') (Some ''<Control-f>'') [Some FileTab],
      add_separator ''Edit'',
      add_action Settingdialog_show (Some ''Edit/Porcupine Settings...'') None None default_tabtypes,
      get_menu_stmt ''Color Themes'',
      add_action (On_wheel ''up'') (Some ''View/Bigger Font'') (Some ''Ctrl+Plus'') None [Some FileTab],
      add_action (On_wheel ''down'') (Some ''View/Smaller Font'') (Some ''Ctrl+Minus'') None [Some FileTab],
      add_action (On_wheel ''reset'') (Some ''View/Reset Font Size'') (Some ''Ctrl+Zero'') None [Some FileTab],
      add_separator ''View'',
      link ''Help/Free help chat'' ''http://webchat.freenode.net/?channels=%23%23learnpython'',
      link ''Help/My Python tutorial'' ''https://github.com/Akuli/python-tutorial/blob/master/README.md'',
      link ''Help/Official Python documentation'' ''https://docs.python.org/'',
      add_separator ''Help'',
      link ''Help/Porcupine Wiki'' ''https://github.com/Akuli/porcupine/wiki'',
      link ''Help/Report a problem or request a feature'' ''https://github.com/Akuli/porcupine/issues/new'',
      link ''Help/Read Porcupine's code'' ''https://github.com/Akuli/porcupine/tree/master/porcupine'']"

text \<open>
  The rest of \<open>_setup_menus\<close>: one radiobutton for each style name, in sorted order, and
  the connection of the radiobuttons' variable to the configuration.
\<close>

definition setup_menus :: "ui_env \<Rightarrow> editor \<Rightarrow> pyexc + editor" where
  "setup_menus env =
     seq (setup_menus_statements
          @ map (color_theme env) (sort (get_all_styles env))
          @ [\<lambda>s. Inr (emit (ConfigConnect ''Editing'' ''pygments_style'') s)])"

text \<open>
  The editor as \<open>__init__\<close> finds it after making the tab manager and the empty menu
  bar: no tabs, no current tab, the menu bar as menu 0, and \<open>_submenus = {}\<close>.
\<close>

definition new_editor :: "bool \<Rightarrow> editor" where
  "new_editor with_destroy_callback =
     \<lparr>tabs = [], current_tab = None, next_tab_id = 0,
      menubar = 0, menus = [(0, [])], next_menu_id = 1, submenus = [],
      bindings = [], tab_changed_hook = [],
      has_destroy_callback = with_destroy_callback, destroyed = False, events = []\<rparr>"

text \<open>
  \<open>__init__\<close> from there: the Help menu first, then \<open>_setup_menus\<close>, then one action for
  each of the tab manager's bindings. The welcome message and the editor's own
  \<open>tab_changed_hook\<close> are widgets and a hook object of the toolkit and of \<open>utils\<close>; they
  touch neither the menus nor the bindings and are left out.
\<close>

definition editor_init :: "ui_env \<Rightarrow> bool \<Rightarrow> pyexc + editor" where
  "editor_init env with_destroy_callback =
     seq
       ([get_menu_stmt ''Help'', setup_menus env]
        @ map (\<lambda>(binding, callback). add_action (External callback) None None (Some binding) default_tabtypes)
            (tabmanager_bindings env))
       (new_editor with_destroy_callback)"

text \<open>The command of the first command entry with a given label.\<close>

fun command_of :: "string \<Rightarrow> menu_entry list \<Rightarrow> callback option" where
  "command_of label [] = None"
| "command_of label (Command l command accelerator st # es) =
     (if l = label then Some command else command_of label es)"
| "command_of label (e # es) = command_of label es"

text \<open>
  The function object behind the entry \<open>label\<close> of the Edit menu of an editor that has
  just been made.
\<close>

definition edit_menu_command :: "ui_env \<Rightarrow> string \<Rightarrow> callback option" where
  "edit_menu_command env label =
     (case editor_init env False of
        Inl e \<Rightarrow> None
      | Inr s \<Rightarrow> command_of label (menu_entries (fst (get_menu ''Edit'' s)) s))"

subsection \<open>Surroundings to run the editor in\<close>

text \<open>
  A user who chooses the given paths, files that raise the given exception or hold the
  given text, a tab manager that appends a tab and makes it current when asked to,
  tabs that can be closed unless they are listed, and two Pygments styles.
\<close>

definition desk :: "string list \<Rightarrow> (string \<times> (pyexc + string)) list \<Rightarrow> nat list \<Rightarrow> ui_env" where
  "desk chosen disk unsaved =
     \<lparr>dialogs_open_files = (\<lambda>dir. Inr chosen),
      config_files_encoding = Inr ''UTF-8'',
      open_and_read = (\<lambda>p encoding. case map_of disk p of None \<Rightarrow> Inl FileNotFoundError | Some r \<Rightarrow> r),
      format_exc = (\<lambda>e. ''Traceback (most recent call last): '' @ exc_name e),
      os_path_dirname = (\<lambda>p. rev (tl (dropWhile (\<lambda>c. c \<noteq> CHR ''/'') (rev p)))),
      copy_bindings_error = (\<lambda>t. None),
      tabmanager_add_tab =
        (\<lambda>t make_current (ts, cur). Inr (ts @ [t], if make_current = Some False then cur else Some t)),
      tab_close = (\<lambda>t (ts, cur). (removeAll t ts, if cur = Some t then None else cur)),
      can_be_closed = (\<lambda>t. tab_id t \<notin> set unsaved),
      tabmanager_bindings = [(''<Control-Next>'', 0), (''<Control-Prior>'', 1)],
      get_all_styles = [''monokai'', ''default''],
      get_style_by_name = (\<lambda>name.
        if name = ''monokai''
        then \<lparr>background_color = ''#272822'', string_color = Some ''e6db74'', text_color = Some ''f8f8f2'',
              default_style = []\<rparr>
        else \<lparr>background_color = ''#f8f8f8'', string_color = None, text_color = None, default_style = []\<rparr>),
      invert_color = (\<lambda>color. ''#070707'')\<rparr>"

definition file_tab :: "nat \<Rightarrow> string \<Rightarrow> tab" where
  "file_tab n p = \<lparr>tab_id = n, tab_class = FileTab, tab_path = Some p, tab_text = []\<rparr>"

definition three_tabs :: editor where
  "three_tabs =
     (new_editor True)
       \<lparr>tabs := [file_tab 0 ''/a'', file_tab 1 ''/b'', file_tab 2 ''/c''],
        current_tab := Some (file_tab 0 ''/a''), next_tab_id := 3\<rparr>"

text \<open>Two actions registered on the same key sequence, one after the other.\<close>

definition bound_twice :: "pyexc + editor" where
  "bound_twice =
     seq [add_action (External 1) None None (Some ''<F5>'') default_tabtypes,
          add_action (External 2) None None (Some ''<F5>'') default_tabtypes]
       (new_editor False)"

subsection \<open>What the menus look like once they are built\<close>

text \<open>
  The entries of the Edit menu as \<open>_setup_menus\<close> leaves them in an editor with no tab.
\<close>

definition edit_entries :: "menu_entry list" where
  "edit_entries =
     [Command ''Undo'' (Textmethod ''undo'') (Some ''Ctrl+Z'') Disabled,
      Command ''Redo'' (Textmethod ''redo'') (Some ''Ctrl+Y'') Disabled,
      Command ''Cut'' (Textmethod ''cut'') (Some ''Ctrl+X'') Disabled,
      Command ''Copy'' (Textmethod ''copy'') (Some ''Ctrl+C'') Disabled,
      Command ''Paste'' (Textmethod ''paste'') (Some ''Ctrl+V'') Disabled,
      Command ''Select All'' (Textmethod ''select_all'') (Some ''Ctrl+A'') Disabled,
      Separator,
      Command ''Find and Replace'' (Current_tab_method ''find'') (Some ''Ctrl+F'') Disabled,
      Separator,
      Command ''Porcupine Settings...'' Settingdialog_show None Normal]"

text \<open>
  Invariant of the rest of \<open>__init__\<close>: the menu bar is menu 0, Edit is menu 3 with the
  entries above, and Color Themes is menu 4.
\<close>

definition menus_built :: "editor \<Rightarrow> bool" where
  "menus_built s \<longleftrightarrow>
     menubar s = 0 \<and> map_of (submenus s) (0, ''Edit'') = Some 3 \<and>
     map_of (submenus s) (0, ''Color Themes'') = Some 4 \<and> menu_entries 3 s = edit_entries"

section \<open>Properties of the installer script\<close>

lemmas installer_defs =
  script_def main_def create_pynsist_cfg_def find_metadata_def open_read_def log_action_def
  backslash_def get_frozen_requirements_in_a_crazy_way_def check_call_def run_child_def
  frozen_try_body_def temp_python_def check_output_decode_def rmtree_def run_pynsist_def
  open_write_def set_section_def

subsection \<open>The directory that is removed is not the one that was created\<close>

lemma find_metadata_dirs: "dirs (snd (find_metadata env w)) = dirs w"
  by (simp add: find_metadata_def open_read_def log_action_def Let_def
      split: option.splits prod.splits sum.splits)

lemma find_metadata_files: "files (snd (find_metadata env w)) = files w"
  by (simp add: find_metadata_def open_read_def log_action_def Let_def
      split: option.splits prod.splits sum.splits)

lemma check_call_dirs:
  "temp \<notin> set (dirs w) \<Longrightarrow> (length argv = 4 \<longrightarrow> argv ! 3 \<noteq> temp) \<Longrightarrow>
   temp \<notin> set (dirs (snd (check_call env argv w)))"
  by (auto simp: check_call_def run_child_def log_action_def
      split: sum.splits prod.splits list.splits)

lemma check_output_dirs:
  "temp \<notin> set (dirs w) \<Longrightarrow> (length argv = 4 \<longrightarrow> argv ! 3 \<noteq> temp) \<Longrightarrow>
   temp \<notin> set (dirs (snd (check_output_decode env argv w)))"
  by (auto simp: check_output_decode_def run_child_def log_action_def
      split: sum.splits prod.splits list.splits option.splits)

lemma frozen_try_body_dirs:
  "temp \<notin> set (dirs w) \<Longrightarrow> temp \<noteq> ''freeze'' \<Longrightarrow>
   temp \<notin> set (dirs (snd (frozen_try_body env w)))"
  unfolding frozen_try_body_def
  using check_call_dirs[of temp w
      "[temp_python, ''-m'', ''pip'', ''install'', ''-r'', ''requirements.txt'']" env]
  by (auto split: prod.splits sum.splits
      dest: check_output_dirs[where temp=temp and env=env
              and argv="[temp_python, ''-m'', ''pip'', ''freeze'']"])

lemma check_call_files: "files (snd (check_call env argv w)) = files w"
  by (auto simp: check_call_def run_child_def log_action_def
      split: sum.splits prod.splits list.splits)

lemma check_output_files: "files (snd (check_output_decode env argv w)) = files w"
  by (auto simp: check_output_decode_def run_child_def log_action_def
      split: sum.splits prod.splits list.splits option.splits)

lemma frozen_try_body_files: "files (snd (frozen_try_body env w)) = files w"
  unfolding frozen_try_body_def
  using check_call_files[of env _ w] check_output_files[of env]
  by (auto split: prod.splits sum.splits) (metis snd_conv)+

lemma rmtree_files: "files (snd (rmtree path w)) = files w"
  by (simp add: rmtree_def log_action_def)

text \<open>
  With no directory \<open>temp_venv\<close> in the working directory, freezing the requirements
  always ends in an exception: either a child process fails, or the \<open>finally\<close> clause
  tries to remove \<open>temp_venv\<close> after the environment was created as \<open>temp_env\<close>.
\<close>

lemma frozen_requirements_raise:
  assumes "''temp_venv'' \<notin> set (dirs w)"
  shows "\<exists>e. fst (get_frozen_requirements_in_a_crazy_way env w) = Inl e"
proof (cases "check_call env [sys_executable env, ''-m'', ''venv'', ''temp_env''] w")
  case (Pair r w1)
  show ?thesis
  proof (cases r)
    case (Inl e)
    with Pair show ?thesis by (simp add: get_frozen_requirements_in_a_crazy_way_def)
  next
    case (Inr u)
    have "''temp_venv'' \<notin>
        set (dirs (snd (check_call env [sys_executable env, ''-m'', ''venv'', ''temp_env''] w)))"
      using assms by (intro check_call_dirs) simp_all
    then have "''temp_venv'' \<notin> set (dirs w1)" using Pair by simp
    then have "''temp_venv'' \<notin> set (dirs (snd (frozen_try_body env w1)))"
      by (intro frozen_try_body_dirs) simp_all
    then show ?thesis using Pair Inr
      by (auto simp: get_frozen_requirements_in_a_crazy_way_def rmtree_def split: prod.splits)
  qed
qed

lemma frozen_requirements_files:
  "files (snd (get_frozen_requirements_in_a_crazy_way env w)) = files w"
proof -
  obtain r1 w1 where c1:
    "check_call env [sys_executable env, ''-m'', ''venv'', ''temp_env''] w = (r1, w1)"
    by (cases "check_call env [sys_executable env, ''-m'', ''venv'', ''temp_env''] w")
  obtain r2 w2 where c2: "frozen_try_body env w1 = (r2, w2)"
    by (cases "frozen_try_body env w1")
  obtain r3 w3 where c3: "rmtree ''temp_venv'' w2 = (r3, w3)"
    by (cases "rmtree ''temp_venv'' w2")
  have "files w1 = files w"
    using check_call_files[of env "[sys_executable env, ''-m'', ''venv'', ''temp_env'']" w] c1
    by simp
  moreover have "files w2 = files w1" using frozen_try_body_files[of env w1] c2 by simp
  moreover have "files w3 = files w2" using rmtree_files[of "''temp_venv''" w2] c3 by simp
  ultimately show ?thesis using c1 c2 c3
    by (simp add: get_frozen_requirements_in_a_crazy_way_def split: sum.splits)
qed

text \<open>
  So on every machine, whatever the child processes do: started where no \<open>temp_venv\<close>
  exists, \<open>main\<close> ends in an exception inside \<open>create_pynsist_cfg\<close>, before the packaging
  command, and no file has been written.
\<close>

lemma main_raises_without_temp_venv:
  assumes "''temp_venv'' \<notin> set (dirs w)"
  shows "(\<exists>e. fst (main env w) = Inl e) \<and> main env w = create_pynsist_cfg env w \<and>
         files (snd (main env w)) = files w"
proof -
  obtain r1 w1 where c1: "find_metadata env w = (r1, w1)" by (cases "find_metadata env w")
  obtain r2 w2 where c2: "get_frozen_requirements_in_a_crazy_way env w1 = (r2, w2)"
    by (cases "get_frozen_requirements_in_a_crazy_way env w1")
  have d1: "dirs w1 = dirs w" and f1: "files w1 = files w"
    using find_metadata_dirs[of env w] find_metadata_files[of env w] c1 by simp_all
  then obtain e where "r2 = Inl e" using frozen_requirements_raise[of w1 env] assms c2 by auto
  moreover have "files w2 = files w" using frozen_requirements_files[of env w1] c2 f1 by simp
  ultimately have "\<exists>e w'. create_pynsist_cfg env w = (Inl e, w') \<and> files w' = files w"
    using c1 c2 f1 by (auto simp: create_pynsist_cfg_def Let_def split: sum.splits option.splits)
  then show ?thesis by (auto simp: main_def)
qed

text \<open>
  Claim C3. Run with no arguments, the script reads \<open>requirements.txt\<close> and the metadata
  in \<open>porcupine/__init__.py\<close>, writes \<open>pynsist.cfg\<close> and then runs
  \<open>python -m nsist pynsist.cfg\<close>.

  The code at a fresh checkout on a Windows machine where every child process succeeds:
  the metadata is read, the environment \<open>temp_env\<close> is created, the requirements are
  installed and frozen, and then \<open>shutil.rmtree('temp_venv')\<close> raises
  \<open>FileNotFoundError\<close>. The journal ends there: \<open>pynsist.cfg\<close> is not written and the
  packaging command is not run. The script itself never opens \<open>requirements.txt\<close>
  (\<open>get_requirements\<close> is not called); only \<open>pip install -r\<close> is given its name.
\<close>

theorem script_fresh_checkout_stops_at_rmtree:
  "script (windows_machine 0) (checkout []) =
     (Inl FileNotFoundError,
      \<lparr>dirs = [''porcupine'', ''temp_env''],
       files = [(''porcupine'' @ backslash @ ''__init__.py'', init_py),
                (''requirements.txt'', ''pygments'')],
       journal = [ReadFile (''porcupine'' @ backslash @ ''__init__.py''),
                  RunProcess [''python'', ''-m'', ''venv'', ''temp_env''],
                  RunProcess [temp_python, ''-m'', ''pip'', ''install'', ''-r'', ''requirements.txt''],
                  RunProcess [temp_python, ''-m'', ''pip'', ''freeze'']]\<rparr>)"
  by code_simp

text \<open>
  Claim C4, as stated: the script ends with the same code as \<open>python -m nsist\<close>, for every
  code. Where a directory \<open>temp_venv\<close> exists the script does reach the packaging
  command; when that returns 2, \<open>check_call\<close> raises and the interpreter ends with 1.
\<close>

theorem script_exit_status_counterexample:
  "spawn (windows_machine 2) [''python'', ''-m'', ''nsist'', ''pynsist.cfg''] = Inr (2, Some []) \<and>
   last (journal (snd (script (windows_machine 2) (checkout [''temp_venv''])))) =
     RunProcess [''python'', ''-m'', ''nsist'', ''pynsist.cfg''] \<and>
   exit_status (script (windows_machine 2) (checkout [''temp_venv''])) \<noteq> 2"
  by code_simp

text \<open>
  Claim C4, amended. Whenever the script reaches the packaging command (the platform is
  Windows and \<open>create_pynsist_cfg\<close> returned), its exit status is 0 when the command
  returns 0 and 1 when it returns anything else.
\<close>

theorem script_exit_status:
  assumes "platform_system env = ''Windows''"
      and "fst (create_pynsist_cfg env w) = Inr ()"
      and "spawn env [sys_executable env, ''-m'', ''nsist'', ''pynsist.cfg''] = Inr (rc, out)"
  shows "exit_status (script env w) = (if rc = 0 then 0 else 1)"
  using assms
  by (cases "create_pynsist_cfg env w")
     (auto simp: exit_status_def script_def main_def run_pynsist_def check_call_def run_child_def)

theorem script_exit_status_witness:
  "platform_system (windows_machine 2) = ''Windows'' \<and>
   fst (create_pynsist_cfg (windows_machine 2) (checkout [''temp_venv''])) = Inr () \<and>
   spawn (windows_machine 2) [sys_executable (windows_machine 2), ''-m'', ''nsist'', ''pynsist.cfg'']
     = Inr (2, Some []) \<and>
   exit_status (script (windows_machine 2) (checkout [''temp_venv''])) = 1"
proof -
  have h1: "platform_system (windows_machine 2) = ''Windows''"
    by (simp add: windows_machine_def)
  have h2: "fst (create_pynsist_cfg (windows_machine 2) (checkout [''temp_venv''])) = Inr ()"
    by code_simp
  have h3: "spawn (windows_machine 2)
      [sys_executable (windows_machine 2), ''-m'', ''nsist'', ''pynsist.cfg''] = Inr (2, Some [])"
    by (simp add: windows_machine_def)
  show ?thesis using h1 h2 h3 script_exit_status[OF h1 h2 h3] by simp
qed

section \<open>Properties of the editor\<close>

subsection \<open>\<open>open_files\<close>\<close>

lemmas open_defs =
  open_files_def defaultdir_def open_files_try_def copy_bindings_def add_tab_def desk_def
  new_editor_def emit_def set_tabmanager_def exc_isinstance_def eval_nat_numeral

lemma copy_bindings_events:
  "events (snd (copy_bindings env t s)) = events s @ [CopyBindings (tab_id t)]"
  by (simp add: copy_bindings_def emit_def split: option.splits)

lemma add_tab_events: "events (snd (add_tab env t mc s)) = events s"
  by (simp add: add_tab_def set_tabmanager_def split: sum.splits)

lemma open_files_try_unchanged:
  "fst (open_files_try env p s) = Inl e \<Longrightarrow> snd (open_files_try env p s) = s"
  by (auto simp: open_files_try_def split: sum.splits)

lemma open_files_try_events: "events (snd (open_files_try env p s)) = events s"
  by (auto simp: open_files_try_def split: sum.splits)

text \<open>The loop only ever adds to the record of calls.\<close>

lemma open_files_loop_events:
  "prefix (events s) (events (snd (open_files_loop env ps s)))"
proof (induction ps arbitrary: s)
  case Nil
  show ?case by simp
next
  case (Cons p ps)
  obtain r s1 where t: "open_files_try env p s = (r, s1)"
    by (cases "open_files_try env p s")
  then have e1: "events s1 = events s"
    using open_files_try_events[of env p s] by simp
  show ?case
  proof (cases r)
    case (Inl e)
    show ?thesis
    proof (cases "exc_isinstance e OSError \<or> exc_isinstance e UnicodeError")
      case True
      have "prefix (events s)
          (events (emit (ErrorDialog (exc_name e) ''Opening failed!'' (format_exc env e))
                     (emit (LogException p) s1)))"
        by (simp add: emit_def e1)
      then show ?thesis using t Inl True Cons.IH prefix_order.trans by fastforce
    next
      case False
      then show ?thesis using t Inl e1 by simp
    qed
  next
    case (Inr tb)
    obtain r2 s2 where c: "copy_bindings env tb s1 = (r2, s2)"
      by (cases "copy_bindings env tb s1")
    then have e2: "prefix (events s) (events s2)"
      using copy_bindings_events[of env tb s1] e1 by simp
    obtain r3 s3 where a: "add_tab env tb (Some True) s2 = (r3, s3)"
      by (cases "add_tab env tb (Some True) s2")
    then have e3: "prefix (events s) (events s3)"
      using add_tab_events[of env tb "Some True" s2] e2 by simp
    have "prefix (events s) (events (snd (open_files_loop env ps s3)))"
      using e3 Cons.IH[of s3] by (rule prefix_order.trans)
    then show ?thesis using t Inr c a e2 e3 by (simp split: sum.splits)
  qed
qed

text \<open>The loop over a list in two parts is the loop over the first, then over the second.\<close>

lemma open_files_loop_append:
  "open_files_loop env (ps @ qs) s =
     (case open_files_loop env ps s of
        (Inl e, s1) \<Rightarrow> (Inl e, s1)
      | (Inr u, s1) \<Rightarrow> open_files_loop env qs s1)"
  by (induction ps arbitrary: s) (auto split: prod.splits sum.splits)

text \<open>
  Claim C1, as stated: for every path for which opening the file fails, \<open>open_files\<close>
  shows an error dialog for that path, adds no tab for it, and goes on with the
  remaining chosen paths. The user chooses \<open>/c\<close> and \<open>/d\<close>; opening \<open>/c\<close> fails with
  \<open>LookupError\<close> (as \<open>open\<close> does for an encoding it does not know), which the \<open>except\<close>
  clause does not name. \<open>open_files\<close> ends with that exception: no dialog has been
  shown, and \<open>/d\<close>, which can be read, has not been opened.
\<close>

theorem open_files_uncaught_counterexample:
  "dialogs_open_files (desk [''/c'', ''/d''] [(''/c'', Inl LookupError), (''/d'', Inr ''text'')] [])
       (defaultdir (desk [''/c'', ''/d''] [(''/c'', Inl LookupError), (''/d'', Inr ''text'')] [])
          (new_editor False))
     = Inr [''/c'', ''/d''] \<and>
   fst (open_files_try (desk [''/c'', ''/d''] [(''/c'', Inl LookupError), (''/d'', Inr ''text'')] [])
          ''/c'' (new_editor False)) = Inl LookupError \<and>
   open_files (desk [''/c'', ''/d''] [(''/c'', Inl LookupError), (''/d'', Inr ''text'')] [])
       (new_editor False)
     = (Inl LookupError, new_editor False) \<and>
   events (new_editor False) = []"
  by (simp add: open_defs)

text \<open>
  Claim C1, amended. For every chosen path for which opening the file raises an
  \<open>OSError\<close> or a \<open>UnicodeError\<close> (a nonexistent file raises \<open>FileNotFoundError\<close>),
  \<open>open_files\<close> shows an error dialog for that path and adds no tab for it, and goes on
  with the remaining chosen paths.

  Let the user have chosen the paths \<open>before\<close>, then \<open>p\<close>, then \<open>rest\<close>, and let the loop
  have come through \<open>before\<close> and stand at \<open>p\<close> with the editor \<open>s1\<close>. Then \<open>open_files\<close> is
  the loop over \<open>rest\<close>, started from \<open>s1\<close> with two calls more on record, the log entry
  and the dialog titled with the exception's class name: the tab list, the current tab
  and everything else are those of \<open>s1\<close>, and neither \<open>copy_bindings\<close> nor \<open>add_tab\<close> has
  been called for \<open>p\<close>. Whatever happens at the paths of \<open>rest\<close>, the dialog stays on
  record when \<open>open_files\<close> ends.
\<close>

theorem open_files_failed_path_skipped:
  assumes "dialogs_open_files env (defaultdir env s) = Inr (before @ p # rest)"
      and "open_files_loop env before s = (Inr (), s1)"
      and "fst (open_files_try env p s1) = Inl e"
      and "exc_isinstance e OSError \<or> exc_isinstance e UnicodeError"
  shows "open_files env s =
           open_files_loop env rest
             (s1\<lparr>events := events s1 @
                [LogException p, ErrorDialog (exc_name e) ''Opening failed!'' (format_exc env e)]\<rparr>) \<and>
         prefix (events s1 @
                [LogException p, ErrorDialog (exc_name e) ''Opening failed!'' (format_exc env e)])
           (events (snd (open_files env s)))"
proof -
  let ?s2 = "s1\<lparr>events := events s1 @
                [LogException p, ErrorDialog (exc_name e) ''Opening failed!'' (format_exc env e)]\<rparr>"
  have "snd (open_files_try env p s1) = s1"
    using assms(3) by (rule open_files_try_unchanged)
  with assms(3) have "open_files_try env p s1 = (Inl e, s1)"
    by (metis prod.collapse)
  then have eq: "open_files env s = open_files_loop env rest ?s2"
    using assms(1,2,4) by (simp add: open_files_def open_files_loop_append emit_def)
  moreover have "prefix (events ?s2) (events (snd (open_files_loop env rest ?s2)))"
    by (rule open_files_loop_events)
  ultimately show ?thesis by simp
qed

theorem open_files_failed_path_skipped_witness:
  "dialogs_open_files
       (desk [''/a/b'', ''/c'', ''/d''] [(''/a/b'', Inr ''hello''), (''/c'', Inl UnicodeDecodeError)] [])
       (defaultdir
          (desk [''/a/b'', ''/c'', ''/d''] [(''/a/b'', Inr ''hello''), (''/c'', Inl UnicodeDecodeError)] [])
          (new_editor False))
     = Inr ([''/a/b''] @ ''/c'' # [''/d'']) \<and>
   open_files_loop
       (desk [''/a/b'', ''/c'', ''/d''] [(''/a/b'', Inr ''hello''), (''/c'', Inl UnicodeDecodeError)] [])
       [''/a/b''] (new_editor False) =
     (Inr (), (new_editor False)
        \<lparr>tabs := [\<lparr>tab_id = 0, tab_class = FileTab, tab_path = Some ''/a/b'', tab_text = ''hello''\<rparr>],
         current_tab := Some \<lparr>tab_id = 0, tab_class = FileTab, tab_path = Some ''/a/b'', tab_text = ''hello''\<rparr>,
         next_tab_id := 1, events := [CopyBindings 0]\<rparr>) \<and>
   fst (open_files_try
       (desk [''/a/b'', ''/c'', ''/d''] [(''/a/b'', Inr ''hello''), (''/c'', Inl UnicodeDecodeError)] [])
       ''/c''
       ((new_editor False)
        \<lparr>tabs := [\<lparr>tab_id = 0, tab_class = FileTab, tab_path = Some ''/a/b'', tab_text = ''hello''\<rparr>],
         current_tab := Some \<lparr>tab_id = 0, tab_class = FileTab, tab_path = Some ''/a/b'', tab_text = ''hello''\<rparr>,
         next_tab_id := 1, events := [CopyBindings 0]\<rparr>)) = Inl UnicodeDecodeError \<and>
   exc_isinstance UnicodeDecodeError UnicodeError \<and>
   open_files
       (desk [''/a/b'', ''/c'', ''/d''] [(''/a/b'', Inr ''hello''), (''/c'', Inl UnicodeDecodeError)] [])
       (new_editor False) =
     (Inr (), (new_editor False)
        \<lparr>tabs := [\<lparr>tab_id = 0, tab_class = FileTab, tab_path = Some ''/a/b'', tab_text = ''hello''\<rparr>],
         current_tab := Some \<lparr>tab_id = 0, tab_class = FileTab, tab_path = Some ''/a/b'', tab_text = ''hello''\<rparr>,
         next_tab_id := 1,
         events := [CopyBindings 0,
           LogException ''/c'',
           ErrorDialog ''UnicodeDecodeError'' ''Opening failed!''
             ''Traceback (most recent call last): UnicodeDecodeError'',
           LogException ''/d'',
           ErrorDialog ''FileNotFoundError'' ''Opening failed!''
             ''Traceback (most recent call last): FileNotFoundError'']\<rparr>)"
  (is "?h1 \<and> ?h2 \<and> ?h3 \<and> ?h4 \<and> ?c")
proof -
  have h1: ?h1 by (simp add: open_defs)
  have h2: ?h2 by (simp add: open_defs)
  have h3: ?h3 by (simp add: open_defs)
  have h4: "exc_isinstance UnicodeDecodeError OSError \<or> exc_isinstance UnicodeDecodeError UnicodeError"
    by (simp add: exc_isinstance_def eval_nat_numeral)
  have ?c
    using open_files_failed_path_skipped[OF h1 h2 h3 h4]
    by (simp add: open_files_try_def copy_bindings_def add_tab_def desk_def
        new_editor_def emit_def set_tabmanager_def exc_isinstance_def eval_nat_numeral)
  with h1 h2 h3 show ?thesis by (simp add: exc_isinstance_def eval_nat_numeral)
qed

text \<open>
  Claim C2. \<open>open_files\<close> catches exactly \<open>OSError\<close> and \<open>UnicodeError\<close> raised while a
  chosen file is opened and shows each in an error dialog; any other exception raised
  during \<open>open_files\<close> is not caught there and leaves the function.

  An exception of \<open>dialogs.open_files\<close> leaves \<open>open_files\<close>, whatever its class. Let the
  user have chosen \<open>before\<close>, \<open>p\<close>, \<open>rest\<close>, and let the loop stand at \<open>p\<close> with the editor
  \<open>s1\<close>. An exception \<open>e\<close> of the \<open>try\<close> body that is an instance of one of the two classes
  is logged and shown in a dialog titled with its class name, and the loop goes on
  with \<open>rest\<close>; one that is an instance of neither leaves \<open>open_files\<close> at once, the
  editor being \<open>s1\<close>. When the body has made the tab, an exception of one of the two
  statements after the \<open>try\<close>, \<open>utils.copy_bindings\<close> and \<open>add_tab\<close>, leaves \<open>open_files\<close>
  as well, be it an \<open>OSError\<close>: there is no dialog and the loop does not go on.
\<close>

theorem open_files_catches_exactly:
  "(dialogs_open_files env (defaultdir env s) = Inl e0 \<longrightarrow> open_files env s = (Inl e0, s)) \<and>
   (dialogs_open_files env (defaultdir env s) = Inr (before @ p # rest) \<and>
    open_files_loop env before s = (Inr (), s1) \<longrightarrow>
      (fst (open_files_try env p s1) = Inl e \<and>
       (exc_isinstance e OSError \<or> exc_isinstance e UnicodeError) \<longrightarrow>
         open_files env s =
           open_files_loop env rest
             (s1\<lparr>events := events s1 @
                [LogException p, ErrorDialog (exc_name e) ''Opening failed!'' (format_exc env e)]\<rparr>)) \<and>
      (fst (open_files_try env p s1) = Inl e \<and>
       \<not> (exc_isinstance e OSError \<or> exc_isinstance e UnicodeError) \<longrightarrow>
         open_files env s = (Inl e, s1)) \<and>
      (open_files_try env p s1 = (Inr t, s2) \<and> copy_bindings_error env t = Some e \<longrightarrow>
         open_files env s = (Inl e, s2\<lparr>events := events s2 @ [CopyBindings (tab_id t)]\<rparr>)) \<and>
      (open_files_try env p s1 = (Inr t, s2) \<and> copy_bindings_error env t = None \<and>
       tabmanager_add_tab env t (Some True) (tabs s2, current_tab s2) = Inl e \<longrightarrow>
         open_files env s = (Inl e, s2\<lparr>events := events s2 @ [CopyBindings (tab_id t)]\<rparr>)))"
proof (intro conjI impI; (elim conjE)?)
  assume "dialogs_open_files env (defaultdir env s) = Inl e0"
  then show "open_files env s = (Inl e0, s)" by (simp add: open_files_def)
next
  assume c: "dialogs_open_files env (defaultdir env s) = Inr (before @ p # rest)"
    and b: "open_files_loop env before s = (Inr (), s1)"
    and t: "fst (open_files_try env p s1) = Inl e"
    and i: "exc_isinstance e OSError \<or> exc_isinstance e UnicodeError"
  have "snd (open_files_try env p s1) = s1" using t by (rule open_files_try_unchanged)
  with t have "open_files_try env p s1 = (Inl e, s1)" by (metis prod.collapse)
  then show "open_files env s =
           open_files_loop env rest
             (s1\<lparr>events := events s1 @
                [LogException p, ErrorDialog (exc_name e) ''Opening failed!'' (format_exc env e)]\<rparr>)"
    using c b i by (simp add: open_files_def open_files_loop_append emit_def)
next
  assume c: "dialogs_open_files env (defaultdir env s) = Inr (before @ p # rest)"
    and b: "open_files_loop env before s = (Inr (), s1)"
    and t: "fst (open_files_try env p s1) = Inl e"
    and i: "\<not> (exc_isinstance e OSError \<or> exc_isinstance e UnicodeError)"
  have "snd (open_files_try env p s1) = s1" using t by (rule open_files_try_unchanged)
  with t have "open_files_try env p s1 = (Inl e, s1)" by (metis prod.collapse)
  then show "open_files env s = (Inl e, s1)"
    using c b i by (simp add: open_files_def open_files_loop_append)
next
  assume c: "dialogs_open_files env (defaultdir env s) = Inr (before @ p # rest)"
    and b: "open_files_loop env before s = (Inr (), s1)"
    and t: "open_files_try env p s1 = (Inr t, s2)"
    and r: "copy_bindings_error env t = Some e"
  show "open_files env s = (Inl e, s2\<lparr>events := events s2 @ [CopyBindings (tab_id t)]\<rparr>)"
    using c b t r by (simp add: open_files_def open_files_loop_append copy_bindings_def emit_def)
next
  assume c: "dialogs_open_files env (defaultdir env s) = Inr (before @ p # rest)"
    and b: "open_files_loop env before s = (Inr (), s1)"
    and t: "open_files_try env p s1 = (Inr t, s2)"
    and r: "copy_bindings_error env t = None"
    and a: "tabmanager_add_tab env t (Some True) (tabs s2, current_tab s2) = Inl e"
  show "open_files env s = (Inl e, s2\<lparr>events := events s2 @ [CopyBindings (tab_id t)]\<rparr>)"
    using c b t r a
    by (simp add: open_files_def open_files_loop_append copy_bindings_def add_tab_def emit_def)
qed

theorem open_files_catches_exactly_witness:
  "open_files ((desk [''/c''] [] [])\<lparr>dialogs_open_files := (\<lambda>dir. Inl TclError)\<rparr>) (new_editor False)
     = (Inl TclError, new_editor False) \<and>
   exc_isinstance PermissionError OSError \<and>
   open_files (desk [''/c''] [(''/c'', Inl PermissionError)] []) (new_editor False)
     = (Inr (), (new_editor False)
          \<lparr>events := [LogException ''/c'',
             ErrorDialog ''PermissionError'' ''Opening failed!''
               ''Traceback (most recent call last): PermissionError'']\<rparr>) \<and>
   \<not> exc_isinstance MemoryError OSError \<and> \<not> exc_isinstance MemoryError UnicodeError \<and>
   open_files (desk [''/c'', ''/d''] [(''/c'', Inl MemoryError)] []) (new_editor False)
     = (Inl MemoryError, new_editor False) \<and>
   open_files ((desk [''/c''] [(''/c'', Inr ''text'')] [])\<lparr>copy_bindings_error := (\<lambda>t. Some OSError)\<rparr>)
       (new_editor False)
     = (Inl OSError, (new_editor False)\<lparr>next_tab_id := 1, events := [CopyBindings 0]\<rparr>) \<and>
   open_files
       ((desk [''/c''] [(''/c'', Inr ''text'')] [])
          \<lparr>tabmanager_add_tab := (\<lambda>t make_current tm. Inl OSError)\<rparr>)
       (new_editor False)
     = (Inl OSError, (new_editor False)\<lparr>next_tab_id := 1, events := [CopyBindings 0]\<rparr>)"
proof -
  let ?E = "new_editor False"
  let ?D0 = "(desk [''/c''] [] [])\<lparr>dialogs_open_files := (\<lambda>dir. Inl TclError)\<rparr>"
  let ?D1 = "desk [''/c''] [(''/c'', Inl PermissionError)] []"
  let ?D2 = "desk [''/c'', ''/d''] [(''/c'', Inl MemoryError)] []"
  let ?D3 = "(desk [''/c''] [(''/c'', Inr ''text'')] [])\<lparr>copy_bindings_error := (\<lambda>t. Some OSError)\<rparr>"
  let ?D4 = "(desk [''/c''] [(''/c'', Inr ''text'')] [])
          \<lparr>tabmanager_add_tab := (\<lambda>t make_current tm. Inl OSError)\<rparr>"
  let ?t = "\<lparr>tab_id = 0, tab_class = FileTab, tab_path = Some ''/c'', tab_text = ''text''\<rparr>"
  have c0: "open_files ?D0 ?E = (Inl TclError, ?E)"
    using open_files_catches_exactly[where env="?D0" and s="?E" and ?e0.0=TclError]
    by (simp add: desk_def)
  have c1: "open_files ?D1 ?E = (Inr (), ?E
          \<lparr>events := [LogException ''/c'',
             ErrorDialog ''PermissionError'' ''Opening failed!''
               ''Traceback (most recent call last): PermissionError'']\<rparr>)"
    using open_files_catches_exactly[where env="?D1" and s="?E" and before="[]" and p="''/c''"
        and rest="[]" and ?s1.0="?E" and e=PermissionError]
    by (simp add: open_defs)
  have c2: "open_files ?D2 ?E = (Inl MemoryError, ?E)"
    using open_files_catches_exactly[where env="?D2" and s="?E" and before="[]" and p="''/c''"
        and rest="[''/d'']" and ?s1.0="?E" and e=MemoryError]
    by (simp add: open_defs)
  have c3: "open_files ?D3 ?E = (Inl OSError, ?E\<lparr>next_tab_id := 1, events := [CopyBindings 0]\<rparr>)"
    using open_files_catches_exactly[where env="?D3" and s="?E" and before="[]" and p="''/c''"
        and rest="[]" and ?s1.0="?E" and e=OSError and t="?t" and ?s2.0="?E\<lparr>next_tab_id := 1\<rparr>"]
    by (simp add: open_defs)
  have c4: "open_files ?D4 ?E = (Inl OSError, ?E\<lparr>next_tab_id := 1, events := [CopyBindings 0]\<rparr>)"
    using open_files_catches_exactly[where env="?D4" and s="?E" and before="[]" and p="''/c''"
        and rest="[]" and ?s1.0="?E" and e=OSError and t="?t" and ?s2.0="?E\<lparr>next_tab_id := 1\<rparr>"]
    by (simp add: open_defs)
  show ?thesis using c0 c1 c2 c3 c4 by (simp add: exc_isinstance_def eval_nat_numeral)
qed

subsection \<open>\<open>do_quit\<close>\<close>

lemma do_quit_loop_all:
  "list_all (can_be_closed env) ts \<Longrightarrow>
   do_quit_loop env ts s = (True, s\<lparr>events := events s @ map (CanBeClosed \<circ> tab_id) ts\<rparr>)"
  by (induction ts arbitrary: s) (simp_all add: emit_def)

lemma do_quit_loop_some:
  "\<not> list_all (can_be_closed env) ts \<Longrightarrow>
   do_quit_loop env ts s =
     (False, s\<lparr>events := events s @ map (CanBeClosed \<circ> tab_id)
        (takeWhile (can_be_closed env) ts @ take 1 (dropWhile (can_be_closed env) ts))\<rparr>)"
  by (induction ts arbitrary: s) (simp_all add: emit_def)

text \<open>
  Claim C6. \<open>do_quit\<close> is all or nothing: if some open tab answers that it cannot be
  closed, \<open>do_quit\<close> returns without closing a tab, without destroying the editor and
  without calling \<open>destroy_callback\<close>; the editor is destroyed and the callback called
  only when every open tab can be closed.

  In the first case the editor after \<open>do_quit\<close> is the editor before it, but for the
  questions on record: the tabs up to and including the first that refuses have been
  asked, and nothing else has been called. In the second case every tab has been
  asked, the editor is destroyed, and the callback, if there is one, is called after
  that.
\<close>

theorem do_quit_all_or_nothing:
  "(list_ex (\<lambda>t. \<not> can_be_closed env t) (tabs s) \<longrightarrow>
      do_quit env s =
        s\<lparr>events := events s @ map (CanBeClosed \<circ> tab_id)
           (takeWhile (can_be_closed env) (tabs s) @ take 1 (dropWhile (can_be_closed env) (tabs s)))\<rparr>) \<and>
   (list_all (can_be_closed env) (tabs s) \<longrightarrow>
      do_quit env s =
        s\<lparr>destroyed := True,
          events := events s @ map (CanBeClosed \<circ> tab_id) (tabs s) @
            Destroy # (if has_destroy_callback s then [DestroyCallback] else [])\<rparr>)"
proof (intro conjI impI)
  assume "list_ex (\<lambda>t. \<not> can_be_closed env t) (tabs s)"
  then have "\<not> list_all (can_be_closed env) (tabs s)"
    by (simp add: list_ex_iff list_all_iff)
  then show "do_quit env s =
        s\<lparr>events := events s @ map (CanBeClosed \<circ> tab_id)
           (takeWhile (can_be_closed env) (tabs s) @ take 1 (dropWhile (can_be_closed env) (tabs s)))\<rparr>"
    by (simp add: do_quit_def do_quit_loop_some)
next
  assume "list_all (can_be_closed env) (tabs s)"
  then show "do_quit env s =
        s\<lparr>destroyed := True,
          events := events s @ map (CanBeClosed \<circ> tab_id) (tabs s) @
            Destroy # (if has_destroy_callback s then [DestroyCallback] else [])\<rparr>"
    by (simp add: do_quit_def do_quit_loop_all emit_def)
qed

theorem do_quit_all_or_nothing_witness:
  "list_ex (\<lambda>t. \<not> can_be_closed (desk [] [] [1]) t) (tabs three_tabs) \<and>
   do_quit (desk [] [] [1]) three_tabs = three_tabs\<lparr>events := [CanBeClosed 0, CanBeClosed 1]\<rparr> \<and>
   list_all (can_be_closed (desk [] [] [])) (tabs three_tabs) \<and>
   do_quit (desk [] [] []) three_tabs =
     three_tabs\<lparr>destroyed := True,
       events := [CanBeClosed 0, CanBeClosed 1, CanBeClosed 2, Destroy, DestroyCallback]\<rparr>"
proof -
  have h1: "list_ex (\<lambda>t. \<not> can_be_closed (desk [] [] [1]) t) (tabs three_tabs)"
    by (simp add: three_tabs_def desk_def file_tab_def new_editor_def)
  have h2: "list_all (can_be_closed (desk [] [] [])) (tabs three_tabs)"
    by (simp add: three_tabs_def desk_def file_tab_def new_editor_def)
  show ?thesis
    using h1 h2 do_quit_all_or_nothing[of "desk [] [] [1]" three_tabs]
      do_quit_all_or_nothing[of "desk [] [] []" three_tabs]
    by (simp add: three_tabs_def desk_def file_tab_def new_editor_def)
qed

subsection \<open>\<open>get_menu\<close>\<close>

lemma map_of_update_absent_le:
  "map_of al k = None \<Longrightarrow> map_of al \<subseteq>\<^sub>m map_of (AList.update k v al)"
  by (auto simp: map_le_def update_conv' dom_def)

text \<open>
  One turn of the loop at a label that is not in the dictionary: the loop goes on from
  the new menu, in an editor whose dictionary has the one key more.
\<close>

lemma get_menu_loop_new:
  assumes "map_of (submenus s) (cur, label) = None"
  shows "\<exists>s3. get_menu_loop cur (label # labels) s = get_menu_loop (fst (new_menu s)) labels s3 \<and>
           submenus s3 = AList.update (cur, label) (fst (new_menu s)) (submenus s) \<and>
           menubar s3 = menubar s"
proof -
  define s3 where "s3 =
    (let s1 = snd (new_menu s);
         s2 = (if cur = menubar s1
               then menu_insert cur
                      (case menu_index_end cur s1 of None \<Rightarrow> 0 | Some index \<Rightarrow> index)
                      (Cascade label (fst (new_menu s))) s1
               else menu_add cur (Cascade label (fst (new_menu s))) s1)
     in s2\<lparr>submenus := AList.update (cur, label) (fst (new_menu s)) (submenus s2)\<rparr>)"
  have "get_menu_loop cur (label # labels) s = get_menu_loop (fst (new_menu s)) labels s3"
    using assms by (simp add: s3_def Let_def split: prod.splits)
  moreover have "submenus s3 = AList.update (cur, label) (fst (new_menu s)) (submenus s)"
    by (simp add: s3_def Let_def new_menu_def menu_insert_def menu_add_def set_menu_entries_def)
  moreover have "menubar s3 = menubar s"
    by (simp add: s3_def Let_def new_menu_def menu_insert_def menu_add_def set_menu_entries_def)
  ultimately show ?thesis by blast
qed

text \<open>The dictionary only grows: a key keeps its menu.\<close>

lemma get_menu_loop_submenus_grow:
  "map_of (submenus s) \<subseteq>\<^sub>m map_of (submenus (snd (get_menu_loop cur labels s)))"
proof (induction labels arbitrary: cur s)
  case Nil
  show ?case by simp
next
  case (Cons label labels)
  show ?case
  proof (cases "map_of (submenus s) (cur, label)")
    case (Some found)
    then show ?thesis using Cons.IH[of s found] by simp
  next
    case None
    then obtain s3 where
      step: "get_menu_loop cur (label # labels) s = get_menu_loop (fst (new_menu s)) labels s3" and
      sub3: "submenus s3 = AList.update (cur, label) (fst (new_menu s)) (submenus s)"
      using get_menu_loop_new by blast
    have "map_of (submenus s) \<subseteq>\<^sub>m map_of (submenus s3)"
      unfolding sub3 using None by (rule map_of_update_absent_le)
    also have "\<dots> \<subseteq>\<^sub>m map_of (submenus (snd (get_menu_loop (fst (new_menu s)) labels s3)))"
      by (rule Cons.IH)
    finally show ?thesis unfolding step .
  qed
qed

text \<open>
  In any editor whose dictionary holds what the first walk left, the same walk finds
  every label, ends at the same menu and changes nothing.
\<close>

lemma get_menu_loop_again:
  "map_of (submenus (snd (get_menu_loop cur labels s))) \<subseteq>\<^sub>m map_of (submenus t) \<Longrightarrow>
   get_menu_loop cur labels t = (fst (get_menu_loop cur labels s), t)"
proof (induction labels arbitrary: cur s)
  case Nil
  show ?case by simp
next
  case (Cons label labels)
  show ?case
  proof (cases "map_of (submenus s) (cur, label)")
    case (Some found)
    have "map_of (submenus s) \<subseteq>\<^sub>m map_of (submenus (snd (get_menu_loop cur (label # labels) s)))"
      by (rule get_menu_loop_submenus_grow)
    then have "map_of (submenus s) \<subseteq>\<^sub>m map_of (submenus t)"
      using Cons.prems by (rule map_le_trans)
    then have "map_of (submenus t) (cur, label) = Some found"
      using Some by (auto simp: map_le_def dom_def)
    moreover have "get_menu_loop found labels t = (fst (get_menu_loop found labels s), t)"
      using Cons.prems Some by (intro Cons.IH) simp
    ultimately show ?thesis using Some by simp
  next
    case None
    then obtain s3 where
      step: "get_menu_loop cur (label # labels) s = get_menu_loop (fst (new_menu s)) labels s3" and
      sub3: "submenus s3 = AList.update (cur, label) (fst (new_menu s)) (submenus s)"
      using get_menu_loop_new by blast
    have "map_of (submenus s3)
        \<subseteq>\<^sub>m map_of (submenus (snd (get_menu_loop (fst (new_menu s)) labels s3)))"
      by (rule get_menu_loop_submenus_grow)
    then have "map_of (submenus s3) \<subseteq>\<^sub>m map_of (submenus t)"
      using Cons.prems unfolding step by (rule map_le_trans)
    moreover have "map_of (submenus s3) (cur, label) = Some (fst (new_menu s))"
      unfolding sub3 by (simp add: update_conv')
    ultimately have "map_of (submenus t) (cur, label) = Some (fst (new_menu s))"
      by (auto simp: map_le_def dom_def)
    moreover have "get_menu_loop (fst (new_menu s)) labels t
        = (fst (get_menu_loop (fst (new_menu s)) labels s3), t)"
      using Cons.prems unfolding step by (rule Cons.IH)
    ultimately show ?thesis unfolding step by simp
  qed
qed

lemma get_menu_loop_menubar: "menubar (snd (get_menu_loop cur labels s)) = menubar s"
proof (induction labels arbitrary: cur s)
  case Nil
  show ?case by simp
next
  case (Cons label labels)
  show ?case
  proof (cases "map_of (submenus s) (cur, label)")
    case (Some found)
    then show ?thesis using Cons.IH[of found s] by simp
  next
    case None
    then obtain s3 where
      "get_menu_loop cur (label # labels) s = get_menu_loop (fst (new_menu s)) labels s3"
      "menubar s3 = menubar s"
      using get_menu_loop_new by blast
    then show ?thesis using Cons.IH[of "fst (new_menu s)" s3] by simp
  qed
qed

text \<open>
  Claim C7. \<open>get_menu\<close> is idempotent: for every \<open>label_path\<close>, a second call with the
  same path returns the same submenu as the first and makes no new menu entry; the
  dictionary of submenus and the menus are left as the first call left them.

  The second call, made in the editor the first call leaves, returns the pair of the
  first call: the same menu and that same editor, unchanged.
\<close>

theorem get_menu_idempotent:
  "get_menu label_path (snd (get_menu label_path s)) = get_menu label_path s"
proof -
  let ?ls = "str_split (CHR ''/'') label_path"
  have "get_menu_loop (menubar s) ?ls (snd (get_menu_loop (menubar s) ?ls s))
      = (fst (get_menu_loop (menubar s) ?ls s), snd (get_menu_loop (menubar s) ?ls s))"
    by (rule get_menu_loop_again) simp
  then show ?thesis by (simp add: get_menu_def get_menu_loop_menubar)
qed

theorem get_menu_idempotent_witness:
  "fst (get_menu ''File/Stuff'' (new_editor False)) = 2 \<and>
   get_menu ''File/Stuff'' (snd (get_menu ''File/Stuff'' (new_editor False)))
     = (2, (new_editor False)
          \<lparr>menus := [(0, [Cascade ''File'' 1]), (1, [Cascade ''Stuff'' 2]), (2, [])],
           next_menu_id := 3, submenus := [((0, ''File''), 1), ((1, ''Stuff''), 2)]\<rparr>)"
  using get_menu_idempotent[of "''File/Stuff''" "new_editor False"]
  by (simp add: get_menu_def str_split_def new_editor_def new_menu_def menu_insert_def menu_add_def
      set_menu_entries_def menu_entries_def menu_index_end_def)

subsection \<open>Key bindings\<close>

lemma do_quit_events: "prefix (events s) (events (do_quit env s))"
  by (cases "list_all (can_be_closed env) (tabs s)")
     (simp_all add: do_quit_def do_quit_loop_all do_quit_loop_some emit_def Let_def)

lemma new_file_events: "prefix (events s) (events (snd (new_file env s)))"
proof -
  let ?t = "\<lparr>tab_id = next_tab_id s, tab_class = FileTab, tab_path = None, tab_text = []\<rparr>"
  let ?s1 = "s\<lparr>next_tab_id := Suc (next_tab_id s)\<rparr>"
  obtain r2 s2 where c: "copy_bindings env ?t ?s1 = (r2, s2)"
    by (cases "copy_bindings env ?t ?s1")
  then have e2: "prefix (events s) (events s2)"
    using copy_bindings_events[of env ?t ?s1] by simp
  then have "prefix (events s) (events (snd (add_tab env ?t None s2)))"
    by (simp add: add_tab_events)
  then show ?thesis using c e2 by (simp add: new_file_def Let_def split: sum.splits)
qed

lemma close_tab_or_quit_events: "prefix (events s) (events (close_tab_or_quit env s))"
  by (auto simp: close_tab_or_quit_def set_tabmanager_def emit_def do_quit_events
      split: option.splits)

text \<open>Whatever a callback does, the calls on record stay on record.\<close>

lemma run_callback_events: "prefix (events s) (events (snd (run_callback env cb s)))"
  by (cases cb)
     (auto simp: run_callback_def open_files_def new_file_events close_tab_or_quit_events
        open_files_loop_events emit_def Let_def split: option.splits sum.splits)

lemma call_events: "\<exists>evs. events (snd (call env cb s)) = events s @ Called cb # evs"
proof -
  obtain evs where
    "events (snd (run_callback env cb (emit (Called cb) s))) = events (emit (Called cb) s) @ evs"
    using run_callback_events[of "emit (Called cb) s" env cb] by (auto simp: prefix_def)
  then show ?thesis by (auto simp: call_def emit_def)
qed

text \<open>
  \<open>isinstance\<close> against the tuple built from \<open>tabtypes\<close>, in words: no tab is open and
  \<open>None\<close> is listed, or the current tab's class is a subclass of a listed class.
\<close>

lemma isinstance_tabtypes:
  "isinstance v (tabtypes_tuple tabtypes) \<longleftrightarrow>
     (v = None \<and> None \<in> set tabtypes) \<or>
     (\<exists>t cls. v = Some t \<and> Some cls \<in> set tabtypes \<and> issubclass (tab_class t) cls)"
proof (cases v)
  case None
  have "list_ex (isinstance1 None) (tabtypes_tuple tabtypes) \<longleftrightarrow> None \<in> set tabtypes"
    by (induction tabtypes) (auto simp: tabtypes_tuple_def split: option.splits)
  then show ?thesis using None by (simp add: isinstance_def)
next
  case (Some t)
  have "list_ex (isinstance1 (Some t)) (tabtypes_tuple tabtypes) \<longleftrightarrow>
        (\<exists>cls. Some cls \<in> set tabtypes \<and> issubclass (tab_class t) cls)"
    by (induction tabtypes) (auto simp: tabtypes_tuple_def split: option.splits)
  then show ?thesis using Some by (simp add: isinstance_def)
qed

lemma add_action_binds:
  "add_action callback menupath accelerator (Some binding) tabtypes s0 = Inr s1 \<Longrightarrow>
   map_of (bindings s1) binding = Some (callback, tabtypes_tuple tabtypes)"
  by (auto simp: add_action_def update_conv' Let_def split: sum.splits option.splits prod.splits)

lemma bind_callback_events:
  "Called callback \<in> set (drop (length (events s)) (events (snd (bind_callback env callback tts s))))
     \<longleftrightarrow> isinstance (current_tab s) tts"
proof (cases "isinstance (current_tab s) tts")
  case True
  obtain evs where "events (snd (call env callback s)) = events s @ Called callback # evs"
    using call_events by blast
  then show ?thesis using True by (auto simp: bind_callback_def split: prod.splits sum.splits)
next
  case False
  then show ?thesis by (simp add: bind_callback_def)
qed

text \<open>
  Claim C8, as stated: for every action registered with a key binding and a
  \<open>tabtypes\<close> restriction, triggering the binding calls the callback exactly when the
  current tab is of a listed type. \<open>self.bind\<close> replaces what was bound to the sequence
  before, so of two actions registered on \<open><F5>\<close> only the second is still bound: with
  no tab open, which the first action's \<open>tabtypes\<close> allow, the first callback is not
  called.
\<close>

theorem binding_replaced_counterexample:
  "bound_twice =
     Inr ((new_editor False)\<lparr>bindings := [(''<F5>'', External 2, [NoneType, TabType Tab])]\<rparr>) \<and>
   isinstance
     (current_tab ((new_editor False)\<lparr>bindings := [(''<F5>'', External 2, [NoneType, TabType Tab])]\<rparr>))
     (tabtypes_tuple default_tabtypes) \<and>
   Called (External 1) \<notin> set (events (snd (trigger (desk [] [] []) ''<F5>''
      ((new_editor False)\<lparr>bindings := [(''<F5>'', External 2, [NoneType, TabType Tab])]\<rparr>))))"
  by (simp add: bound_twice_def add_action_def default_tabtypes_def tabtypes_tuple_def
      new_editor_def trigger_def bind_callback_def isinstance_def call_def run_callback_def emit_def)

text \<open>
  Claim C8, amended. For every action registered with a key binding and a \<open>tabtypes\<close>
  restriction, and as long as the sequence is still bound as that registration left it
  (no later \<open>add_action\<close> has taken the sequence over), triggering the binding calls the
  callback if and only if no tab is open and \<open>None\<close> is listed, or the current tab is an
  instance of a listed class; when the current tab does not fit, nothing happens at
  all and the bound function returns \<open>None\<close>.
\<close>

theorem binding_calls_callback_iff_tab_fits:
  assumes "add_action callback menupath accelerator (Some binding) tabtypes s0 = Inr s1"
      and "map_of (bindings s) binding = map_of (bindings s1) binding"
  shows "(Called callback \<in> set (drop (length (events s)) (events (snd (trigger env binding s))))
            \<longleftrightarrow> (current_tab s = None \<and> None \<in> set tabtypes) \<or>
                (\<exists>t cls. current_tab s = Some t \<and> Some cls \<in> set tabtypes \<and>
                   issubclass (tab_class t) cls)) \<and>
         (\<not> isinstance (current_tab s) (tabtypes_tuple tabtypes) \<longrightarrow>
            trigger env binding s = (Inr None, s))"
proof -
  have b: "map_of (bindings s) binding = Some (callback, tabtypes_tuple tabtypes)"
    using assms add_action_binds by simp
  then have t: "trigger env binding s = bind_callback env callback (tabtypes_tuple tabtypes) s"
    by (simp add: trigger_def)
  have "Called callback \<in> set (drop (length (events s)) (events (snd (trigger env binding s))))
          \<longleftrightarrow> isinstance (current_tab s) (tabtypes_tuple tabtypes)"
    unfolding t by (rule bind_callback_events)
  moreover have "\<not> isinstance (current_tab s) (tabtypes_tuple tabtypes) \<longrightarrow>
            trigger env binding s = (Inr None, s)"
    unfolding t by (simp add: bind_callback_def)
  ultimately show ?thesis unfolding isinstance_tabtypes[symmetric] by blast
qed

theorem binding_calls_callback_iff_tab_fits_witness:
  "add_action (External 1) None None (Some ''<F5>'') [Some FileTab] (new_editor False)
     = Inr ((new_editor False)\<lparr>bindings := [(''<F5>'', External 1, [TabType FileTab])]\<rparr>) \<and>
   Called (External 1) \<in> set (events (snd (trigger (desk [] [] []) ''<F5>''
      ((new_editor False)\<lparr>bindings := [(''<F5>'', External 1, [TabType FileTab])],
          tabs := [file_tab 0 ''/a''], current_tab := Some (file_tab 0 ''/a'')\<rparr>)))) \<and>
   trigger (desk [] [] []) ''<F5>''
       ((new_editor False)\<lparr>bindings := [(''<F5>'', External 1, [TabType FileTab])]\<rparr>)
     = (Inr None, (new_editor False)\<lparr>bindings := [(''<F5>'', External 1, [TabType FileTab])]\<rparr>)"
proof -
  let ?s1 = "(new_editor False)\<lparr>bindings := [(''<F5>'', External 1, [TabType FileTab])]\<rparr>"
  let ?s = "(new_editor False)\<lparr>bindings := [(''<F5>'', External 1, [TabType FileTab])],
          tabs := [file_tab 0 ''/a''], current_tab := Some (file_tab 0 ''/a'')\<rparr>"
  have h1: "add_action (External 1) None None (Some ''<F5>'') [Some FileTab] (new_editor False) = Inr ?s1"
    by (simp add: add_action_def tabtypes_tuple_def new_editor_def)
  have h2: "map_of (bindings ?s) ''<F5>'' = map_of (bindings ?s1) ''<F5>''" by simp
  have h3: "map_of (bindings ?s1) ''<F5>'' = map_of (bindings ?s1) ''<F5>''" by simp
  show ?thesis
    using h1 binding_calls_callback_iff_tab_fits[OF h1 h2, of "desk [] [] []"]
      binding_calls_callback_iff_tab_fits[OF h1 h3, of "desk [] [] []"]
    by (simp add: new_editor_def file_tab_def isinstance_def tabtypes_tuple_def)
qed

subsection \<open>The Edit menu\<close>

lemma seq_append:
  "seq (fs @ gs) s = (case seq fs s of Inl e \<Rightarrow> Inl e | Inr s1 \<Rightarrow> seq gs s1)"
  by (induction fs arbitrary: s) (auto split: sum.splits)

text \<open>Statements that each keep an invariant keep it when run in a row, and none raises.\<close>

lemma seq_preserves:
  "(\<And>f s. f \<in> set fs \<Longrightarrow> P s \<Longrightarrow> \<exists>s1. f s = Inr s1 \<and> P s1) \<Longrightarrow> P s \<Longrightarrow>
   \<exists>s1. seq fs s = Inr s1 \<and> P s1"
proof (induction fs arbitrary: s)
  case Nil
  then show ?case by simp
next
  case (Cons f fs)
  obtain s1 where f: "f s = Inr s1" "P s1"
    using Cons.prems(1)[of f s] Cons.prems(2) by auto
  have "\<exists>s2. seq fs s1 = Inr s2 \<and> P s2"
  proof (rule Cons.IH)
    show "\<exists>s1. g t = Inr s1 \<and> P s1" if "g \<in> set fs" "P t" for g t
      using Cons.prems(1)[of g t] that by simp
    show "P s1" by (rule f(2))
  qed
  then show ?case using f by simp
qed

lemmas menu_defs =
  get_menu_def str_split_def new_menu_def menu_insert_def menu_add_def set_menu_entries_def
  menu_entries_def menu_index_end_def entryconfig_state_def tab_changed_def isinstance_def
  tabtypes_tuple_def default_tabtypes_def rsplit1_def

text \<open>The statements up to the Help links, run in the new editor with its Help menu.\<close>

lemma setup_menus_statements_built:
  "\<exists>s1. seq setup_menus_statements (snd (get_menu ''Help'' (new_editor dcb))) = Inr s1 \<and>
        menus_built s1"
  by (simp add: setup_menus_statements_def menus_built_def edit_entries_def new_editor_def
      add_action_def add_separator_def get_menu_stmt_def link_def menu_defs)

lemma color_theme_built:
  "menus_built s \<Longrightarrow> \<exists>s1. color_theme env name s = Inr s1 \<and> menus_built s1"
  by (simp add: menus_built_def color_theme_def Let_def get_menu_def str_split_def menu_add_def
      set_menu_entries_def menu_entries_def update_conv')

lemma emit_built: "menus_built s \<Longrightarrow> menus_built (emit ev s)"
  by (simp add: menus_built_def emit_def menu_entries_def)

lemma add_binding_built:
  "menus_built s \<Longrightarrow> \<exists>s1. add_action cb None None (Some b) tts s = Inr s1 \<and> menus_built s1"
  by (simp add: menus_built_def add_action_def menu_entries_def)

lemma setup_menus_built:
  "\<exists>s1. setup_menus env (snd (get_menu ''Help'' (new_editor dcb))) = Inr s1 \<and> menus_built s1"
proof -
  obtain s1 where
    s1: "seq setup_menus_statements (snd (get_menu ''Help'' (new_editor dcb))) = Inr s1"
      "menus_built s1"
    using setup_menus_statements_built by blast
  have "\<exists>s2. seq (map (color_theme env) (sort (get_all_styles env))
          @ [\<lambda>s. Inr (emit (ConfigConnect ''Editing'' ''pygments_style'') s)]) s1 = Inr s2 \<and>
        menus_built s2"
  proof (rule seq_preserves)
    show "menus_built s1" by (rule s1(2))
    show "\<exists>s1. f s = Inr s1 \<and> menus_built s1"
      if "f \<in> set (map (color_theme env) (sort (get_all_styles env))
          @ [\<lambda>s. Inr (emit (ConfigConnect ''Editing'' ''pygments_style'') s)])" "menus_built s"
      for f s
      using that color_theme_built emit_built by auto
  qed
  then show ?thesis using s1(1) by (simp add: setup_menus_def seq_append)
qed

text \<open>\<open>__init__\<close> never raises, and the editor it makes has the Edit menu as described.\<close>

lemma editor_init_built: "\<exists>s. editor_init env dcb = Inr s \<and> menus_built s"
proof -
  obtain s1 where
    s1: "setup_menus env (snd (get_menu ''Help'' (new_editor dcb))) = Inr s1" "menus_built s1"
    using setup_menus_built by blast
  have "\<exists>s2. seq (map (\<lambda>(binding, callback).
            add_action (External callback) None None (Some binding) default_tabtypes)
          (tabmanager_bindings env)) s1 = Inr s2 \<and> menus_built s2"
  proof (rule seq_preserves)
    show "menus_built s1" by (rule s1(2))
    show "\<exists>s1. f s = Inr s1 \<and> menus_built s1"
      if "f \<in> set (map (\<lambda>(binding, callback).
            add_action (External callback) None None (Some binding) default_tabtypes)
          (tabmanager_bindings env))" "menus_built s"
      for f s
      using that add_binding_built by auto
  qed
  then show ?thesis using s1(1) by (simp add: editor_init_def get_menu_stmt_def)
qed

lemma edit_menu_command_built: "edit_menu_command env label = command_of label edit_entries"
proof -
  obtain s where s: "editor_init env False = Inr s" "menus_built s"
    using editor_init_built by blast
  have "get_menu ''Edit'' s = (3, s)"
    using s(2) by (simp add: menus_built_def get_menu_def str_split_def)
  then show ?thesis using s by (simp add: edit_menu_command_def menus_built_def)
qed

text \<open>
  Claim C5. Each of the editor's text-operation actions (undo, redo, cut, copy, paste,
  find) delegates to the widget owned by the current tab: the Edit-menu action calls
  the method of the same name on the current tab's text widget (\<open>find\<close> on the tab
  itself), and the \<open>Editor\<close> class does nothing to the text.

  Whatever the tab manager's bindings and the installed styles, the Edit menu of a new
  editor has under Undo, Redo, Cut, Copy and Paste the closure \<open>textmethod\<close> of the
  attribute \<open>undo\<close>, \<open>redo\<close>, \<open>cut\<close>, \<open>copy\<close>, \<open>paste\<close>, and under Find and Replace the
  function that calls \<open>current_tab.find()\<close>. Called while a file tab is current, such a
  function makes one call, to the method of that name of the tab's text widget (of the
  tab, for \<open>find\<close>), and changes nothing else in the editor.
\<close>

theorem edit_actions_delegate:
  assumes "current_tab s = Some t" and "issubclass (tab_class t) FileTab"
  shows "edit_menu_command env ''Undo'' = Some (Textmethod ''undo'') \<and>
         edit_menu_command env ''Redo'' = Some (Textmethod ''redo'') \<and>
         edit_menu_command env ''Cut'' = Some (Textmethod ''cut'') \<and>
         edit_menu_command env ''Copy'' = Some (Textmethod ''copy'') \<and>
         edit_menu_command env ''Paste'' = Some (Textmethod ''paste'') \<and>
         edit_menu_command env ''Find and Replace'' = Some (Current_tab_method ''find'') \<and>
         call env (Textmethod attribute) s =
           (Inr (), s\<lparr>events := events s @
              [Called (Textmethod attribute), TextwidgetMethod (tab_id t) attribute]\<rparr>) \<and>
         call env (Current_tab_method ''find'') s =
           (Inr (), s\<lparr>events := events s @
              [Called (Current_tab_method ''find''), TabMethod (tab_id t) ''find'']\<rparr>)"
  using assms
  by (simp add: edit_menu_command_built edit_entries_def call_def run_callback_def emit_def)

theorem edit_actions_delegate_witness:
  "current_tab three_tabs = Some (file_tab 0 ''/a'') \<and>
   issubclass (tab_class (file_tab 0 ''/a'')) FileTab \<and>
   edit_menu_command (desk [] [] []) ''Undo'' = Some (Textmethod ''undo'') \<and>
   events (snd (call (desk [] [] []) (Textmethod ''undo'') three_tabs))
     = [Called (Textmethod ''undo''), TextwidgetMethod 0 ''undo''] \<and>
   events (snd (call (desk [] [] []) (Current_tab_method ''find'') three_tabs))
     = [Called (Current_tab_method ''find''), TabMethod 0 ''find'']"
proof -
  have h1: "current_tab three_tabs = Some (file_tab 0 ''/a'')"
    by (simp add: three_tabs_def)
  have h2: "issubclass (tab_class (file_tab 0 ''/a'')) FileTab"
    by (simp add: file_tab_def)
  show ?thesis
    using h1 h2 edit_actions_delegate[OF h1 h2, of "desk [] [] []" "''undo''"]
    by (simp add: three_tabs_def new_editor_def file_tab_def)
qed

end
